theory Spec2Isabelle
  imports Main "HOL-Library.Word"
begin

unbundle bit_operations_syntax

section \<open>The virtual machine of minvm.h\<close>

text \<open>
  A shallow embedding of \<^verbatim>\<open>minvm.h\<close> and \<^verbatim>\<open>minvm.c\<close>. The C types are kept:
  \<^verbatim>\<open>uint8_t\<close> is an 8-bit word, \<^verbatim>\<open>int32_t\<close> a 32-bit word read through \<open>sint\<close>,
  a one-bit bit-field a \<open>bool\<close>. A value of type \<^verbatim>\<open>size_t\<close> (64 bits) is an \<open>int\<close> or
  \<open>nat\<close> below \<open>2 ^ 64\<close>, with the reduction modulo \<open>2 ^ 64\<close> written out where the C
  code converts or adds.
\<close>

type_synonym uint8_t = "8 word"
type_synonym int32_t = "32 word"

subsection \<open>The enumeration of minvm.h\<close>

definition ADD :: uint8_t where "ADD = 0x01"
definition NEG :: uint8_t where "NEG = 0x02"
definition MUL :: uint8_t where "MUL = 0x03"
definition DIV :: uint8_t where "DIV = 0x04"
definition MOD :: uint8_t where "MOD = 0x05"

definition CMP :: uint8_t where "CMP = 0x10"
definition JA :: uint8_t where "JA = 0x11"
definition JE :: uint8_t where "JE = 0x12"
definition JB :: uint8_t where "JB = 0x13"
definition JMP :: uint8_t where "JMP = 0x14"

definition CALL :: uint8_t where "CALL = 0x20"
definition RET :: uint8_t where "RET = 0x21"

definition LOAD :: uint8_t where "LOAD = 0x30"
definition STORE :: uint8_t where "STORE = 0x31"
definition CONST_op :: uint8_t where "CONST_op = 0x32"
definition RLOAD :: uint8_t where "RLOAD = 0x33"
definition RSTORE :: uint8_t where "RSTORE = 0x34"

definition HALT :: uint8_t where "HALT = 0x40"
definition INT_op :: uint8_t where "INT_op = 0x41"
definition NOP :: uint8_t where "NOP = 0x42"

definition PUSH :: uint8_t where "PUSH = 0x50"
definition PUSH_ALL :: uint8_t where "PUSH_ALL = 0x51"
definition POP :: uint8_t where "POP = 0x52"
definition POP_ALL :: uint8_t where "POP_ALL = 0x53"
definition LSP :: uint8_t where "LSP = 0x54"

definition REG1 :: uint8_t where "REG1 = 0x00"
definition REG2 :: uint8_t where "REG2 = 0x01"
definition REG3 :: uint8_t where "REG3 = 0x02"
definition REG4 :: uint8_t where "REG4 = 0x03"

definition INTERRUPT_PRINT_INTEGER :: uint8_t where "INTERRUPT_PRINT_INTEGER = 0x01"
definition INTERRUPT_PRINT_STRING :: uint8_t where "INTERRUPT_PRINT_STRING = 0x02"

definition N_REGISTERS :: nat where "N_REGISTERS = 4"

lemmas opcode_defs =
  ADD_def NEG_def MUL_def DIV_def MOD_def CMP_def JA_def JE_def JB_def JMP_def
  CALL_def RET_def LOAD_def STORE_def CONST_op_def RLOAD_def RSTORE_def
  HALT_def INT_op_def NOP_def PUSH_def PUSH_ALL_def POP_def POP_ALL_def LSP_def

lemmas register_defs = REG1_def REG2_def REG3_def REG4_def

subsection \<open>The structures VM_CPU and TOYVM\<close>

text \<open>
  What the interrupt instruction writes to standard output is kept with the state, in
  the field \<open>stdout\<close>: one entry for each \<^verbatim>\<open>printf\<close> call.
\<close>

datatype printed = PrintedInteger int | PrintedString "uint8_t list"

record VM_STATUS =
  BAD_INSTRUCTION :: bool
  STACK_UNDERFLOW :: bool
  STACK_OVERFLOW :: bool
  INVALID_REGISTER_INDEX :: bool
  BAD_ACCESS :: bool
  COMPARISON_BELOW :: bool
  COMPARISON_EQUAL :: bool
  COMPARISON_ABOVE :: bool

record VM_CPU =
  registers :: "int32_t list"
  program_counter :: int32_t
  stack_pointer :: int32_t
  status :: VM_STATUS

record TOYVM =
  memory :: "uint8_t list"
  memory_size :: int32_t
  stack_limit :: int32_t
  cpu :: VM_CPU
  opcode_map :: "uint8_t \<Rightarrow> nat"
  stdout :: "printed list"

text \<open>
  The result of running a piece of the C code from a state: it returns a value and the
  state it leaves, or it reaches an operation whose behaviour C does not define (a read
  or write outside an array, a signed overflow, a division by zero), and \<open>Undefined\<close>
  holds the state reached at that point.
\<close>

datatype 'a result = Undefined TOYVM | Return 'a TOYVM

subsection \<open>Setting fields\<close>

definition set_status :: "(VM_STATUS \<Rightarrow> VM_STATUS) \<Rightarrow> TOYVM \<Rightarrow> TOYVM" where
  "set_status f vm = vm\<lparr>cpu := (cpu vm)\<lparr>status := f (status (cpu vm))\<rparr>\<rparr>"

definition set_program_counter :: "int32_t \<Rightarrow> TOYVM \<Rightarrow> TOYVM" where
  "set_program_counter v vm = vm\<lparr>cpu := (cpu vm)\<lparr>program_counter := v\<rparr>\<rparr>"

definition set_stack_pointer :: "int32_t \<Rightarrow> TOYVM \<Rightarrow> TOYVM" where
  "set_stack_pointer v vm = vm\<lparr>cpu := (cpu vm)\<lparr>stack_pointer := v\<rparr>\<rparr>"

text \<open>The five fault flags of a state, in the order of the structure.\<close>

definition fault_flags :: "TOYVM \<Rightarrow> bool \<times> bool \<times> bool \<times> bool \<times> bool" where
  "fault_flags vm =
     (BAD_INSTRUCTION (status (cpu vm)), STACK_UNDERFLOW (status (cpu vm)),
      STACK_OVERFLOW (status (cpu vm)), INVALID_REGISTER_INDEX (status (cpu vm)),
      BAD_ACCESS (status (cpu vm)))"

text \<open>
  \<^verbatim>\<open>vm->cpu.registers[i]\<close> for an index byte \<open>i\<close>: the array has \<open>N_REGISTERS\<close>
  elements, and an access at any other index is undefined.
\<close>

definition get_register :: "TOYVM \<Rightarrow> uint8_t \<Rightarrow> int32_t option" where
  "get_register vm i =
     (if unat i < N_REGISTERS then Some (registers (cpu vm) ! unat i) else None)"

definition set_register :: "uint8_t \<Rightarrow> int32_t \<Rightarrow> TOYVM \<Rightarrow> TOYVM option" where
  "set_register i v vm =
     (if unat i < N_REGISTERS
      then Some (vm\<lparr>cpu := (cpu vm)\<lparr>registers := (registers (cpu vm))[unat i := v]\<rparr>\<rparr>)
      else None)"

subsection \<open>Integer conversions and arithmetic of C\<close>

text \<open>The value of an \<^verbatim>\<open>int32_t\<close> converted to \<^verbatim>\<open>size_t\<close>.\<close>

definition size_t_of :: "int32_t \<Rightarrow> int" where
  "size_t_of w = sint w mod 2 ^ 64"

text \<open>
  The result of an arithmetic operation on \<^verbatim>\<open>int\<close>: the mathematical value where it
  is representable, undefined otherwise.
\<close>

definition int32_of_int :: "int \<Rightarrow> int32_t option" where
  "int32_of_int i = (if - (2 ^ 31) \<le> i \<and> i < 2 ^ 31 then Some (word_of_int i) else None)"

text \<open>Division and remainder of C truncate towards zero.\<close>

definition c_div :: "int \<Rightarrow> int \<Rightarrow> int" where
  "c_div a b = sgn a * sgn b * (\<bar>a\<bar> div \<bar>b\<bar>)"

definition c_mod :: "int \<Rightarrow> int \<Rightarrow> int" where
  "c_mod a b = a - b * c_div a b"

text \<open>
  \<^verbatim>\<open>a / b\<close> and \<^verbatim>\<open>a % b\<close> on \<^verbatim>\<open>int32_t\<close>: undefined when \<open>b\<close> is zero and when
  the quotient is not representable.
\<close>

definition int32_div :: "int32_t \<Rightarrow> int32_t \<Rightarrow> int32_t option" where
  "int32_div a b = (if sint b = 0 then None else int32_of_int (c_div (sint a) (sint b)))"

definition int32_mod :: "int32_t \<Rightarrow> int32_t \<Rightarrow> int32_t option" where
  "int32_mod a b =
     (if sint b = 0 then None
      else case int32_of_int (c_div (sint a) (sint b)) of
             None \<Rightarrow> None
           | Some q \<Rightarrow> int32_of_int (c_mod (sint a) (sint b)))"

subsection \<open>Stack predicates\<close>

definition StackIsEmpty :: "TOYVM \<Rightarrow> bool" where
  "StackIsEmpty vm = (sint (memory_size vm) \<le> sint (stack_pointer (cpu vm)))"

definition StackIsFull :: "TOYVM \<Rightarrow> bool" where
  "StackIsFull vm = (sint (stack_pointer (cpu vm)) \<le> sint (stack_limit vm))"

definition GetAvailableStackSize :: "TOYVM \<Rightarrow> int32_t option" where
  "GetAvailableStackSize vm =
     int32_of_int (sint (stack_pointer (cpu vm)) - sint (stack_limit vm))"

definition GetOccupiedStackSize :: "TOYVM \<Rightarrow> int32_t option" where
  "GetOccupiedStackSize vm =
     int32_of_int (sint (memory_size vm) - sint (stack_pointer (cpu vm)))"

text \<open>
  The comparison with \<^verbatim>\<open>sizeof(int32_t) * N_REGISTERS\<close> is made in \<^verbatim>\<open>size_t\<close>: the
  left side is converted.
\<close>

definition CanPerformMultipush :: "TOYVM \<Rightarrow> bool option" where
  "CanPerformMultipush vm =
     map_option (\<lambda>n. 4 * int N_REGISTERS \<le> size_t_of n) (GetAvailableStackSize vm)"

definition CanPerformMultipop :: "TOYVM \<Rightarrow> bool option" where
  "CanPerformMultipop vm =
     map_option (\<lambda>n. 4 * int N_REGISTERS \<le> size_t_of n) (GetOccupiedStackSize vm)"

subsection \<open>The table of instructions\<close>

text \<open>
  The columns \<^verbatim>\<open>opcode\<close> and \<^verbatim>\<open>size\<close> of the array \<^verbatim>\<open>instructions\<close>. The column
  \<^verbatim>\<open>execute\<close> is \<open>instructions_execute\<close> below, after the functions it names.
\<close>

definition instructions :: "(uint8_t \<times> nat) list" where
  "instructions =
    [(0, 0),
     (ADD, 3), (NEG, 2), (MUL, 3), (DIV, 3), (MOD, 3),
     (CMP, 3), (JA, 5), (JE, 5), (JB, 5), (JMP, 5),
     (CALL, 5), (RET, 1),
     (LOAD, 6), (STORE, 6), (CONST_op, 6), (RLOAD, 3), (RSTORE, 3),
     (HALT, 1), (INT_op, 2), (NOP, 1),
     (PUSH, 2), (PUSH_ALL, 1), (POP, 2), (POP_ALL, 1), (LSP, 2)]"

definition GetInstructionLength :: "TOYVM \<Rightarrow> uint8_t \<Rightarrow> nat option" where
  "GetInstructionLength vm opcode =
     (let index = opcode_map vm opcode
      in if index < length instructions then Some (snd (instructions ! index)) else None)"

text \<open>
  \<^verbatim>\<open>program_counter + instruction_length <= memory_size\<close>, in \<^verbatim>\<open>size_t\<close>: both
  \<^verbatim>\<open>int32_t\<close> fields are converted and the sum wraps at \<open>2 ^ 64\<close>.
\<close>

definition InstructionFitsInMemory :: "TOYVM \<Rightarrow> uint8_t \<Rightarrow> bool option" where
  "InstructionFitsInMemory vm opcode =
     map_option
       (\<lambda>instruction_length.
          (size_t_of (program_counter (cpu vm)) + int instruction_length) mod 2 ^ 64
            \<le> size_t_of (memory_size vm))
       (GetInstructionLength vm opcode)"

text \<open>
  \<^verbatim>\<open>vm->cpu.program_counter += GetInstructionLength(vm, opcode)\<close>: the sum is made in
  \<^verbatim>\<open>size_t\<close> and stored in an \<^verbatim>\<open>int32_t\<close>, which keeps its low 32 bits.
\<close>

definition advance_program_counter :: "uint8_t \<Rightarrow> TOYVM \<Rightarrow> TOYVM option" where
  "advance_program_counter opcode vm =
     map_option
       (\<lambda>instruction_length.
          set_program_counter (program_counter (cpu vm) + of_nat instruction_length) vm)
       (GetInstructionLength vm opcode)"

subsection \<open>Reading and writing the memory\<close>

text \<open>
  The buffer \<open>memory vm\<close> is what \<^verbatim>\<open>calloc\<close> returned; an access outside it is undefined,
  whatever the field \<open>memory_size\<close> says.
\<close>

definition ReadByte :: "TOYVM \<Rightarrow> int \<Rightarrow> uint8_t option" where
  "ReadByte vm address =
     (if 0 \<le> address \<and> address < int (length (memory vm))
      then Some (memory vm ! nat address) else None)"

text \<open>
  \<^verbatim>\<open>ReadByte(vm, GetProgramCounter(vm) + k)\<close>: the sum is an \<^verbatim>\<open>int\<close>, converted to
  \<^verbatim>\<open>size_t\<close> for the call.
\<close>

definition ReadByteAtPC :: "TOYVM \<Rightarrow> int \<Rightarrow> uint8_t option" where
  "ReadByteAtPC vm k =
     (case int32_of_int (sint (program_counter (cpu vm)) + k) of
        None \<Rightarrow> None
      | Some a \<Rightarrow> ReadByte vm (size_t_of a))"

text \<open>
  \<^verbatim>\<open>(int32_t)((b4 << 24) | (b3 << 16) | (b2 << 8) | b1)\<close>: the four bytes \<open>address\<close>
  to \<open>address + 3\<close>, the lowest first. The shift of \<open>b4\<close> into the sign bit gives
  the two's-complement word, as the compilers define it.
\<close>

definition ReadWord :: "TOYVM \<Rightarrow> int32_t \<Rightarrow> int32_t option" where
  "ReadWord vm address =
     (let a = sint address
      in if 0 \<le> a \<and> a + 3 < int (length (memory vm)) \<and> a + 3 < 2 ^ 31
         then let b1 = memory vm ! nat a;
                  b2 = memory vm ! nat (a + 1);
                  b3 = memory vm ! nat (a + 2);
                  b4 = memory vm ! nat (a + 3)
              in Some (push_bit 24 (ucast b4) OR push_bit 16 (ucast b3)
                         OR push_bit 8 (ucast b2) OR ucast b1)
         else None)"

definition ReadWordAtPC :: "TOYVM \<Rightarrow> int \<Rightarrow> int32_t option" where
  "ReadWordAtPC vm k =
     (case int32_of_int (sint (program_counter (cpu vm)) + k) of
        None \<Rightarrow> None
      | Some a \<Rightarrow> ReadWord vm a)"

definition WriteWord :: "TOYVM \<Rightarrow> int32_t \<Rightarrow> int32_t \<Rightarrow> TOYVM option" where
  "WriteWord vm address val =
     (let b1 = (ucast (val AND 0xff) :: uint8_t);
          b2 = (ucast (drop_bit 8 (val AND 0xff00)) :: uint8_t);
          b3 = (ucast (drop_bit 16 (val AND 0xff0000)) :: uint8_t);
          b4 = (ucast (drop_bit 24 (val AND 0xff000000)) :: uint8_t);
          a = sint address
      in if 0 \<le> a \<and> a + 3 < int (length (memory vm)) \<and> a + 3 < 2 ^ 31
         then Some (vm\<lparr>memory :=
                (memory vm)[nat a := b1, nat (a + 1) := b2,
                            nat (a + 2) := b3, nat (a + 3) := b4]\<rparr>)
         else None)"

definition PopVM :: "TOYVM \<Rightarrow> int32_t result" where
  "PopVM vm =
     (if StackIsEmpty vm
      then Return 0 (set_status (\<lambda>s. s\<lparr>BAD_ACCESS := True\<rparr>) vm)
      else case ReadWord vm (stack_pointer (cpu vm)) of
             None \<Rightarrow> Undefined vm
           | Some word \<Rightarrow>
               (case int32_of_int (sint (stack_pointer (cpu vm)) + 4) of
                  None \<Rightarrow> Undefined vm
                | Some sp \<Rightarrow> Return word (set_stack_pointer sp vm)))"

text \<open>
  \<^verbatim>\<open>WriteWord(vm, vm->cpu.stack_pointer -= 4, value)\<close>: the stack pointer is
  decremented first, and the word is written at its new value.
\<close>

definition PushVM :: "TOYVM \<Rightarrow> int32_t \<Rightarrow> unit result" where
  "PushVM vm val =
     (case int32_of_int (sint (stack_pointer (cpu vm)) - 4) of
        None \<Rightarrow> Undefined vm
      | Some sp \<Rightarrow>
          (case WriteWord (set_stack_pointer sp vm) sp val of
             None \<Rightarrow> Undefined (set_stack_pointer sp vm)
           | Some vm' \<Rightarrow> Return () vm'))"

definition IsValidRegisterIndex :: "uint8_t \<Rightarrow> bool" where
  "IsValidRegisterIndex byte =
     (byte = REG1 \<or> byte = REG2 \<or> byte = REG3 \<or> byte = REG4)"

definition GetProgramCounter :: "TOYVM \<Rightarrow> int32_t" where
  "GetProgramCounter vm = program_counter (cpu vm)"

subsection \<open>Sequencing\<close>

text \<open>
  \<open>defined vm x f\<close> continues with the value of \<open>x\<close>, and stops in \<open>vm\<close> when \<open>x\<close> is
  an undefined operation; \<open>and_then r f\<close> continues after a call that returned.
\<close>

definition defined :: "TOYVM \<Rightarrow> 'a option \<Rightarrow> ('a \<Rightarrow> 'b result) \<Rightarrow> 'b result" where
  "defined vm x f = (case x of None \<Rightarrow> Undefined vm | Some v \<Rightarrow> f v)"

definition and_then :: "'a result \<Rightarrow> ('a \<Rightarrow> TOYVM \<Rightarrow> 'b result) \<Rightarrow> 'b result" where
  "and_then r f = (case r of Undefined vm \<Rightarrow> Undefined vm | Return v vm \<Rightarrow> f v vm)"

subsection \<open>Arithmetic instructions\<close>

definition ExecuteAdd :: "TOYVM \<Rightarrow> bool result" where
  "ExecuteAdd vm =
     defined vm (InstructionFitsInMemory vm ADD) (\<lambda>fits.
     if \<not> fits then Return True (set_status (\<lambda>s. s\<lparr>BAD_ACCESS := True\<rparr>) vm) else
     defined vm (ReadByteAtPC vm 1) (\<lambda>source_register_index.
     defined vm (ReadByteAtPC vm 2) (\<lambda>target_register_index.
     if \<not> IsValidRegisterIndex source_register_index \<or>
        \<not> IsValidRegisterIndex target_register_index
     then Return True (set_status (\<lambda>s. s\<lparr>INVALID_REGISTER_INDEX := True\<rparr>) vm) else
     defined vm (get_register vm target_register_index) (\<lambda>target.
     defined vm (get_register vm source_register_index) (\<lambda>source.
     defined vm (int32_of_int (sint target + sint source)) (\<lambda>v.
     defined vm (set_register target_register_index v vm) (\<lambda>vm1.
     defined vm1 (advance_program_counter ADD vm1) (\<lambda>vm2.
     Return False vm2))))))))"

definition ExecuteNeg :: "TOYVM \<Rightarrow> bool result" where
  "ExecuteNeg vm =
     defined vm (InstructionFitsInMemory vm NEG) (\<lambda>fits.
     if \<not> fits then Return True (set_status (\<lambda>s. s\<lparr>BAD_ACCESS := True\<rparr>) vm) else
     defined vm (ReadByteAtPC vm 1) (\<lambda>register_index.
     if \<not> IsValidRegisterIndex register_index
     then Return True (set_status (\<lambda>s. s\<lparr>INVALID_REGISTER_INDEX := True\<rparr>) vm) else
     defined vm (get_register vm register_index) (\<lambda>r.
     defined vm (int32_of_int (- sint r)) (\<lambda>v.
     defined vm (set_register register_index v vm) (\<lambda>vm1.
     defined vm1 (advance_program_counter NEG vm1) (\<lambda>vm2.
     Return False vm2))))))"

definition ExecuteMul :: "TOYVM \<Rightarrow> bool result" where
  "ExecuteMul vm =
     defined vm (InstructionFitsInMemory vm MUL) (\<lambda>fits.
     if \<not> fits then Return True (set_status (\<lambda>s. s\<lparr>BAD_ACCESS := True\<rparr>) vm) else
     defined vm (ReadByteAtPC vm 1) (\<lambda>source_register_index.
     defined vm (ReadByteAtPC vm 2) (\<lambda>target_register_index.
     if \<not> IsValidRegisterIndex source_register_index \<or>
        \<not> IsValidRegisterIndex target_register_index
     then Return True (set_status (\<lambda>s. s\<lparr>INVALID_REGISTER_INDEX := True\<rparr>) vm) else
     defined vm (get_register vm target_register_index) (\<lambda>target.
     defined vm (get_register vm source_register_index) (\<lambda>source.
     defined vm (int32_of_int (sint target * sint source)) (\<lambda>v.
     defined vm (set_register target_register_index v vm) (\<lambda>vm1.
     defined vm1 (advance_program_counter MUL vm1) (\<lambda>vm2.
     Return False vm2))))))))"

definition ExecuteDiv :: "TOYVM \<Rightarrow> bool result" where
  "ExecuteDiv vm =
     defined vm (InstructionFitsInMemory vm DIV) (\<lambda>fits.
     if \<not> fits then Return True (set_status (\<lambda>s. s\<lparr>BAD_ACCESS := True\<rparr>) vm) else
     defined vm (ReadByteAtPC vm 1) (\<lambda>source_register_index.
     defined vm (ReadByteAtPC vm 2) (\<lambda>target_register_index.
     if \<not> IsValidRegisterIndex source_register_index \<or>
        \<not> IsValidRegisterIndex target_register_index
     then Return True (set_status (\<lambda>s. s\<lparr>INVALID_REGISTER_INDEX := True\<rparr>) vm) else
     defined vm (get_register vm target_register_index) (\<lambda>target.
     defined vm (get_register vm source_register_index) (\<lambda>source.
     defined vm (int32_div target source) (\<lambda>v.
     defined vm (set_register target_register_index v vm) (\<lambda>vm1.
     defined vm1 (advance_program_counter DIV vm1) (\<lambda>vm2.
     Return False vm2))))))))"

text \<open>The dividend of \<^verbatim>\<open>%\<close> is the source register, the divisor the target register.\<close>

definition ExecuteMod :: "TOYVM \<Rightarrow> bool result" where
  "ExecuteMod vm =
     defined vm (InstructionFitsInMemory vm MOD) (\<lambda>fits.
     if \<not> fits then Return True (set_status (\<lambda>s. s\<lparr>BAD_ACCESS := True\<rparr>) vm) else
     defined vm (ReadByteAtPC vm 1) (\<lambda>source_register_index.
     defined vm (ReadByteAtPC vm 2) (\<lambda>target_register_index.
     if \<not> IsValidRegisterIndex source_register_index \<or>
        \<not> IsValidRegisterIndex target_register_index
     then Return True (set_status (\<lambda>s. s\<lparr>INVALID_REGISTER_INDEX := True\<rparr>) vm) else
     defined vm (get_register vm source_register_index) (\<lambda>source.
     defined vm (get_register vm target_register_index) (\<lambda>target.
     defined vm (int32_mod source target) (\<lambda>v.
     defined vm (set_register target_register_index v vm) (\<lambda>vm1.
     defined vm1 (advance_program_counter MOD vm1) (\<lambda>vm2.
     Return False vm2))))))))"

subsection \<open>Comparison and jumps\<close>

definition ExecuteCmp :: "TOYVM \<Rightarrow> bool result" where
  "ExecuteCmp vm =
     defined vm (InstructionFitsInMemory vm CMP) (\<lambda>fits.
     if \<not> fits then Return True (set_status (\<lambda>s. s\<lparr>BAD_ACCESS := True\<rparr>) vm) else
     defined vm (ReadByteAtPC vm 1) (\<lambda>register_index_1.
     defined vm (ReadByteAtPC vm 2) (\<lambda>register_index_2.
     if \<not> IsValidRegisterIndex register_index_1 \<or>
        \<not> IsValidRegisterIndex register_index_2
     then Return True (set_status (\<lambda>s. s\<lparr>INVALID_REGISTER_INDEX := True\<rparr>) vm) else
     defined vm (get_register vm register_index_1) (\<lambda>register_1.
     defined vm (get_register vm register_index_2) (\<lambda>register_2.
     let vm1 =
       (if sint register_1 < sint register_2
        then set_status (\<lambda>s. s\<lparr>COMPARISON_ABOVE := False, COMPARISON_EQUAL := False,
                                 COMPARISON_BELOW := True\<rparr>) vm
        else if sint register_1 > sint register_2
        then set_status (\<lambda>s. s\<lparr>COMPARISON_ABOVE := True, COMPARISON_EQUAL := False,
                                 COMPARISON_BELOW := False\<rparr>) vm
        else set_status (\<lambda>s. s\<lparr>COMPARISON_ABOVE := False, COMPARISON_EQUAL := True,
                                 COMPARISON_BELOW := False\<rparr>) vm)
     in defined vm1 (advance_program_counter CMP vm1) (\<lambda>vm2.
     Return False vm2))))))"

definition ExecuteJumpIfAbove :: "TOYVM \<Rightarrow> bool result" where
  "ExecuteJumpIfAbove vm =
     defined vm (InstructionFitsInMemory vm JA) (\<lambda>fits.
     if \<not> fits then Return True (set_status (\<lambda>s. s\<lparr>BAD_ACCESS := True\<rparr>) vm) else
     if COMPARISON_ABOVE (status (cpu vm))
     then defined vm (ReadWordAtPC vm 1) (\<lambda>address.
          Return False (set_program_counter address vm))
     else defined vm (advance_program_counter JA vm) (\<lambda>vm1.
          Return False vm1))"

definition ExecuteJumpIfEqual :: "TOYVM \<Rightarrow> bool result" where
  "ExecuteJumpIfEqual vm =
     defined vm (InstructionFitsInMemory vm JE) (\<lambda>fits.
     if \<not> fits then Return True (set_status (\<lambda>s. s\<lparr>BAD_ACCESS := True\<rparr>) vm) else
     if COMPARISON_EQUAL (status (cpu vm))
     then defined vm (ReadWordAtPC vm 1) (\<lambda>address.
          Return False (set_program_counter address vm))
     else defined vm (advance_program_counter JE vm) (\<lambda>vm1.
          Return False vm1))"

definition ExecuteJumpIfBelow :: "TOYVM \<Rightarrow> bool result" where
  "ExecuteJumpIfBelow vm =
     defined vm (InstructionFitsInMemory vm JB) (\<lambda>fits.
     if \<not> fits then Return True (set_status (\<lambda>s. s\<lparr>BAD_ACCESS := True\<rparr>) vm) else
     if COMPARISON_BELOW (status (cpu vm))
     then defined vm (ReadWordAtPC vm 1) (\<lambda>address.
          Return False (set_program_counter address vm))
     else defined vm (advance_program_counter JB vm) (\<lambda>vm1.
          Return False vm1))"

definition ExecuteJump :: "TOYVM \<Rightarrow> bool result" where
  "ExecuteJump vm =
     defined vm (InstructionFitsInMemory vm JMP) (\<lambda>fits.
     if \<not> fits then Return True (set_status (\<lambda>s. s\<lparr>BAD_ACCESS := True\<rparr>) vm) else
     defined vm (ReadWordAtPC vm 1) (\<lambda>address.
     Return False (set_program_counter address vm)))"

subsection \<open>Subroutines\<close>

text \<open>
  The word pushed is \<^verbatim>\<open>(uint32_t)(GetProgramCounter(vm) + GetInstructionLength(vm, CALL))\<close>:
  the low 32 bits of the sum.
\<close>

definition ExecuteCall :: "TOYVM \<Rightarrow> bool result" where
  "ExecuteCall vm =
     defined vm (InstructionFitsInMemory vm CALL) (\<lambda>fits.
     if \<not> fits then Return True (set_status (\<lambda>s. s\<lparr>BAD_ACCESS := True\<rparr>) vm) else
     defined vm (GetAvailableStackSize vm) (\<lambda>available.
     if sint available < 4
     then Return True (set_status (\<lambda>s. s\<lparr>STACK_OVERFLOW := True\<rparr>) vm) else
     defined vm (ReadWordAtPC vm 1) (\<lambda>address.
     defined vm (GetInstructionLength vm CALL) (\<lambda>instruction_length.
     and_then (PushVM vm (GetProgramCounter vm + of_nat instruction_length)) (\<lambda>_ vm1.
     Return False (set_program_counter address vm1))))))"

definition ExecuteRet :: "TOYVM \<Rightarrow> bool result" where
  "ExecuteRet vm =
     defined vm (InstructionFitsInMemory vm RET) (\<lambda>fits.
     if \<not> fits then Return True (set_status (\<lambda>s. s\<lparr>BAD_ACCESS := True\<rparr>) vm) else
     if StackIsEmpty vm
     then Return True (set_status (\<lambda>s. s\<lparr>STACK_UNDERFLOW := True\<rparr>) vm) else
     and_then (PopVM vm) (\<lambda>word vm1.
     Return False (set_program_counter word vm1)))"

subsection \<open>Moving data\<close>

definition ExecuteLoad :: "TOYVM \<Rightarrow> bool result" where
  "ExecuteLoad vm =
     defined vm (InstructionFitsInMemory vm LOAD) (\<lambda>fits.
     if \<not> fits then Return True (set_status (\<lambda>s. s\<lparr>BAD_ACCESS := True\<rparr>) vm) else
     defined vm (ReadByteAtPC vm 1) (\<lambda>register_index.
     if \<not> IsValidRegisterIndex register_index
     then Return True (set_status (\<lambda>s. s\<lparr>INVALID_REGISTER_INDEX := True\<rparr>) vm) else
     defined vm (ReadWordAtPC vm 2) (\<lambda>address.
     defined vm (ReadWord vm address) (\<lambda>datum.
     defined vm (set_register register_index datum vm) (\<lambda>vm1.
     defined vm1 (advance_program_counter LOAD vm1) (\<lambda>vm2.
     Return False vm2))))))"

definition ExecuteStore :: "TOYVM \<Rightarrow> bool result" where
  "ExecuteStore vm =
     defined vm (InstructionFitsInMemory vm STORE) (\<lambda>fits.
     if \<not> fits then Return True (set_status (\<lambda>s. s\<lparr>BAD_ACCESS := True\<rparr>) vm) else
     defined vm (ReadByteAtPC vm 1) (\<lambda>register_index.
     if \<not> IsValidRegisterIndex register_index
     then Return True (set_status (\<lambda>s. s\<lparr>INVALID_REGISTER_INDEX := True\<rparr>) vm) else
     defined vm (ReadWordAtPC vm 2) (\<lambda>address.
     defined vm (get_register vm register_index) (\<lambda>datum.
     defined vm (WriteWord vm address datum) (\<lambda>vm1.
     defined vm1 (advance_program_counter STORE vm1) (\<lambda>vm2.
     Return False vm2))))))"

text \<open>The literal is read before the register index is checked.\<close>

definition ExecuteConst :: "TOYVM \<Rightarrow> bool result" where
  "ExecuteConst vm =
     defined vm (InstructionFitsInMemory vm CONST_op) (\<lambda>fits.
     if \<not> fits then Return True (set_status (\<lambda>s. s\<lparr>BAD_ACCESS := True\<rparr>) vm) else
     defined vm (ReadByteAtPC vm 1) (\<lambda>register_index.
     defined vm (ReadWordAtPC vm 2) (\<lambda>datum.
     if \<not> IsValidRegisterIndex register_index
     then Return True (set_status (\<lambda>s. s\<lparr>INVALID_REGISTER_INDEX := True\<rparr>) vm) else
     defined vm (set_register register_index datum vm) (\<lambda>vm1.
     defined vm1 (advance_program_counter CONST_op vm1) (\<lambda>vm2.
     Return False vm2)))))"

text \<open>
  The branch for an invalid register index sets the flag and has no \<^verbatim>\<open>return\<close>: the
  load is made after it.
\<close>

definition ExecuteRload :: "TOYVM \<Rightarrow> bool result" where
  "ExecuteRload vm =
     defined vm (InstructionFitsInMemory vm RLOAD) (\<lambda>fits.
     if \<not> fits then Return True (set_status (\<lambda>s. s\<lparr>BAD_ACCESS := True\<rparr>) vm) else
     defined vm (ReadByteAtPC vm 1) (\<lambda>address_register_index.
     defined vm (ReadByteAtPC vm 2) (\<lambda>data_register_index.
     let vm1 =
       (if \<not> IsValidRegisterIndex address_register_index \<or>
           \<not> IsValidRegisterIndex data_register_index
        then set_status (\<lambda>s. s\<lparr>INVALID_REGISTER_INDEX := True\<rparr>) vm
        else vm)
     in
     defined vm1 (get_register vm1 address_register_index) (\<lambda>address.
     defined vm1 (ReadWord vm1 address) (\<lambda>datum.
     defined vm1 (set_register data_register_index datum vm1) (\<lambda>vm2.
     defined vm2 (advance_program_counter RLOAD vm2) (\<lambda>vm3.
     Return False vm3)))))))"

text \<open>
  The branch for an invalid register index sets \<^verbatim>\<open>BAD_ACCESS\<close>, and the program
  counter is not advanced after the store.
\<close>

definition ExecuteRstore :: "TOYVM \<Rightarrow> bool result" where
  "ExecuteRstore vm =
     defined vm (InstructionFitsInMemory vm RSTORE) (\<lambda>fits.
     if \<not> fits then Return True (set_status (\<lambda>s. s\<lparr>BAD_ACCESS := True\<rparr>) vm) else
     defined vm (ReadByteAtPC vm 1) (\<lambda>source_register_index.
     defined vm (ReadByteAtPC vm 2) (\<lambda>address_register_index.
     if \<not> IsValidRegisterIndex source_register_index \<or>
        \<not> IsValidRegisterIndex address_register_index
     then Return True (set_status (\<lambda>s. s\<lparr>BAD_ACCESS := True\<rparr>) vm) else
     defined vm (get_register vm address_register_index) (\<lambda>address.
     defined vm (get_register vm source_register_index) (\<lambda>source.
     defined vm (WriteWord vm address source) (\<lambda>vm1.
     Return False vm1))))))"

subsection \<open>Auxiliary instructions\<close>

text \<open>
  \<^verbatim>\<open>printf("%s", &vm->memory[address])\<close> with \<open>address\<close> a \<^verbatim>\<open>uint32_t\<close>: the bytes
  from \<open>address\<close> up to the first zero byte; undefined when there is none in the buffer.
\<close>

definition PrintString :: "TOYVM \<Rightarrow> int32_t \<Rightarrow> TOYVM option" where
  "PrintString vm address =
     (let rest = drop (unat address) (memory vm)
      in if 0 \<in> set rest
         then Some (vm\<lparr>stdout := stdout vm @ [PrintedString (takeWhile (\<lambda>b. b \<noteq> 0) rest)]\<rparr>)
         else None)"

definition ExecuteInterrupt :: "TOYVM \<Rightarrow> bool result" where
  "ExecuteInterrupt vm =
     defined vm (InstructionFitsInMemory vm INT_op) (\<lambda>fits.
     if \<not> fits then Return True (set_status (\<lambda>s. s\<lparr>BAD_ACCESS := True\<rparr>) vm) else
     defined vm (ReadByteAtPC vm 1) (\<lambda>interrupt_number.
     if StackIsEmpty vm
     then Return True (set_status (\<lambda>s. s\<lparr>STACK_UNDERFLOW := True\<rparr>) vm) else
     if interrupt_number = INTERRUPT_PRINT_INTEGER then
       and_then (PopVM vm) (\<lambda>word vm1.
       let vm2 = vm1\<lparr>stdout := stdout vm1 @ [PrintedInteger (sint word)]\<rparr> in
       defined vm2 (advance_program_counter INT_op vm2) (\<lambda>vm3.
       Return False vm3))
     else if interrupt_number = INTERRUPT_PRINT_STRING then
       and_then (PopVM vm) (\<lambda>word vm1.
       defined vm1 (PrintString vm1 word) (\<lambda>vm2.
       defined vm2 (advance_program_counter INT_op vm2) (\<lambda>vm3.
       Return False vm3)))
     else Return True vm))"

definition ExecuteNop :: "TOYVM \<Rightarrow> bool result" where
  "ExecuteNop vm =
     defined vm (InstructionFitsInMemory vm NOP) (\<lambda>fits.
     if \<not> fits then Return True (set_status (\<lambda>s. s\<lparr>BAD_ACCESS := True\<rparr>) vm) else
     defined vm (advance_program_counter NOP vm) (\<lambda>vm1.
     Return False vm1))"

definition ExecuteHalt :: "TOYVM \<Rightarrow> bool result" where
  "ExecuteHalt vm = Return True vm"

subsection \<open>Stack instructions\<close>

text \<open>A full stack ends the instruction with no flag set.\<close>

definition ExecutePush :: "TOYVM \<Rightarrow> bool result" where
  "ExecutePush vm =
     defined vm (InstructionFitsInMemory vm PUSH) (\<lambda>fits.
     if \<not> fits then Return True (set_status (\<lambda>s. s\<lparr>BAD_ACCESS := True\<rparr>) vm) else
     if StackIsFull vm then Return True vm else
     defined vm (ReadByteAtPC vm 1) (\<lambda>register_index.
     if \<not> IsValidRegisterIndex register_index
     then Return True (set_status (\<lambda>s. s\<lparr>INVALID_REGISTER_INDEX := True\<rparr>) vm) else
     defined vm (int32_of_int (sint (stack_pointer (cpu vm)) - 4)) (\<lambda>address.
     defined vm (get_register vm register_index) (\<lambda>datum.
     defined vm (WriteWord vm address datum) (\<lambda>vm1.
     defined vm1 (int32_of_int (sint (stack_pointer (cpu vm1)) - 4)) (\<lambda>sp.
     let vm2 = set_stack_pointer sp vm1 in
     defined vm2 (advance_program_counter PUSH vm2) (\<lambda>vm3.
     Return False vm3)))))))"

text \<open>
  One line of \<open>ExecutePushAll\<close>:
  \<^verbatim>\<open>WriteWord(vm, vm->cpu.stack_pointer -= 4, vm->cpu.registers[i])\<close>.
\<close>

definition push_register :: "uint8_t \<Rightarrow> TOYVM \<Rightarrow> unit result" where
  "push_register i vm =
     defined vm (int32_of_int (sint (stack_pointer (cpu vm)) - 4)) (\<lambda>sp.
     let vm1 = set_stack_pointer sp vm in
     defined vm1 (get_register vm1 i) (\<lambda>datum.
     defined vm1 (WriteWord vm1 sp datum) (\<lambda>vm2.
     Return () vm2)))"

definition ExecutePushAll :: "TOYVM \<Rightarrow> bool result" where
  "ExecutePushAll vm =
     defined vm (InstructionFitsInMemory vm PUSH_ALL) (\<lambda>fits.
     if \<not> fits then Return True (set_status (\<lambda>s. s\<lparr>BAD_ACCESS := True\<rparr>) vm) else
     defined vm (CanPerformMultipush vm) (\<lambda>can.
     if \<not> can then Return True (set_status (\<lambda>s. s\<lparr>STACK_OVERFLOW := True\<rparr>) vm) else
     and_then (push_register REG1 vm) (\<lambda>_ vm1.
     and_then (push_register REG2 vm1) (\<lambda>_ vm2.
     and_then (push_register REG3 vm2) (\<lambda>_ vm3.
     and_then (push_register REG4 vm3) (\<lambda>_ vm4.
     defined vm4 (advance_program_counter PUSH_ALL vm4) (\<lambda>vm5.
     Return False vm5)))))))"

text \<open>
  An empty stack ends the instruction with no flag set, and the word is read at
  \<^verbatim>\<open>vm->cpu.stack_pointer+4\<close>.
\<close>

definition ExecutePop :: "TOYVM \<Rightarrow> bool result" where
  "ExecutePop vm =
     defined vm (InstructionFitsInMemory vm POP) (\<lambda>fits.
     if \<not> fits then Return True (set_status (\<lambda>s. s\<lparr>BAD_ACCESS := True\<rparr>) vm) else
     if StackIsEmpty vm then Return True vm else
     defined vm (ReadByteAtPC vm 1) (\<lambda>register_index.
     if \<not> IsValidRegisterIndex register_index
     then Return True (set_status (\<lambda>s. s\<lparr>INVALID_REGISTER_INDEX := True\<rparr>) vm) else
     defined vm (int32_of_int (sint (stack_pointer (cpu vm)) + 4)) (\<lambda>address.
     defined vm (ReadWord vm address) (\<lambda>datum.
     defined vm (set_register register_index datum vm) (\<lambda>vm1.
     defined vm1 (int32_of_int (sint (stack_pointer (cpu vm1)) + 4)) (\<lambda>sp.
     let vm2 = set_stack_pointer sp vm1 in
     defined vm2 (advance_program_counter POP vm2) (\<lambda>vm3.
     Return False vm3)))))))"

text \<open>
  One line of \<open>ExecutePopAll\<close>:
  \<^verbatim>\<open>vm->cpu.registers[i] = ReadWord(vm, vm->cpu.stack_pointer + k)\<close>.
\<close>

definition pop_register :: "uint8_t \<Rightarrow> int \<Rightarrow> TOYVM \<Rightarrow> unit result" where
  "pop_register i k vm =
     defined vm (int32_of_int (sint (stack_pointer (cpu vm)) + k)) (\<lambda>address.
     defined vm (ReadWord vm address) (\<lambda>datum.
     defined vm (set_register i datum vm) (\<lambda>vm1.
     Return () vm1)))"

definition ExecutePopAll :: "TOYVM \<Rightarrow> bool result" where
  "ExecutePopAll vm =
     defined vm (InstructionFitsInMemory vm POP_ALL) (\<lambda>fits.
     if \<not> fits then Return True (set_status (\<lambda>s. s\<lparr>BAD_ACCESS := True\<rparr>) vm) else
     defined vm (CanPerformMultipop vm) (\<lambda>can.
     if \<not> can then Return True (set_status (\<lambda>s. s\<lparr>STACK_UNDERFLOW := True\<rparr>) vm) else
     and_then (pop_register REG4 0 vm) (\<lambda>_ vm1.
     and_then (pop_register REG3 4 vm1) (\<lambda>_ vm2.
     and_then (pop_register REG2 8 vm2) (\<lambda>_ vm3.
     and_then (pop_register REG1 12 vm3) (\<lambda>_ vm4.
     defined vm4 (int32_of_int (sint (stack_pointer (cpu vm4)) + 16)) (\<lambda>sp.
     let vm5 = set_stack_pointer sp vm4 in
     defined vm5 (advance_program_counter POP_ALL vm5) (\<lambda>vm6.
     Return False vm6))))))))"

definition ExecuteLSP :: "TOYVM \<Rightarrow> bool result" where
  "ExecuteLSP vm =
     defined vm (InstructionFitsInMemory vm LSP) (\<lambda>fits.
     if \<not> fits then Return True (set_status (\<lambda>s. s\<lparr>BAD_ACCESS := True\<rparr>) vm) else
     defined vm (ReadByteAtPC vm 1) (\<lambda>register_index.
     if \<not> IsValidRegisterIndex register_index
     then Return True (set_status (\<lambda>s. s\<lparr>INVALID_REGISTER_INDEX := True\<rparr>) vm) else
     defined vm (set_register register_index (stack_pointer (cpu vm)) vm) (\<lambda>vm1.
     defined vm1 (advance_program_counter LSP vm1) (\<lambda>vm2.
     Return False vm2))))"

subsection \<open>The fetch-execute loop\<close>

text \<open>
  The column \<^verbatim>\<open>execute\<close> of the array \<^verbatim>\<open>instructions\<close>; the entry at index 0 is the
  null pointer.
\<close>

definition instructions_execute :: "(TOYVM \<Rightarrow> bool result) option list" where
  "instructions_execute =
    [None,
     Some ExecuteAdd, Some ExecuteNeg, Some ExecuteMul, Some ExecuteDiv, Some ExecuteMod,
     Some ExecuteCmp, Some ExecuteJumpIfAbove, Some ExecuteJumpIfEqual,
     Some ExecuteJumpIfBelow, Some ExecuteJump,
     Some ExecuteCall, Some ExecuteRet,
     Some ExecuteLoad, Some ExecuteStore, Some ExecuteConst, Some ExecuteRload,
     Some ExecuteRstore,
     Some ExecuteHalt, Some ExecuteInterrupt, Some ExecuteNop,
     Some ExecutePush, Some ExecutePushAll, Some ExecutePop, Some ExecutePopAll,
     Some ExecuteLSP]"

text \<open>
  One pass through the body of \<^verbatim>\<open>while (true)\<close> in \<^verbatim>\<open>RunVM\<close>: \<open>Return True\<close> when the
  body executes \<^verbatim>\<open>return\<close>, \<open>Return False\<close> when it reaches its end.
\<close>

definition RunVM_body :: "TOYVM \<Rightarrow> bool result" where
  "RunVM_body vm =
     (let program_counter = GetProgramCounter vm
      in if sint program_counter < 0 \<or> sint (memory_size vm) \<le> sint program_counter
         then Return True (set_status (\<lambda>s. s\<lparr>BAD_ACCESS := True\<rparr>) vm)
         else defined vm (ReadByte vm (sint program_counter)) (\<lambda>opcode.
              let index = opcode_map vm opcode
              in if index = 0
                 then Return True (set_status (\<lambda>s. s\<lparr>BAD_INSTRUCTION := True\<rparr>) vm)
                 else defined vm
                        (if index < length instructions_execute
                         then instructions_execute ! index else None)
                        (\<lambda>opcode_exec. opcode_exec vm)))"

text \<open>The loop may run forever: \<open>None\<close> is the run that does not return.\<close>

partial_function (option) RunVM :: "TOYVM \<Rightarrow> unit result option" where
  [code]: "RunVM vm =
     (case RunVM_body vm of
        Undefined vm' \<Rightarrow> Some (Undefined vm')
      | Return stop vm' \<Rightarrow> if stop then Some (Return () vm') else RunVM vm')"

subsection \<open>Initialization and loading\<close>

definition initial_opcode_map :: "uint8_t \<Rightarrow> nat" where
  "initial_opcode_map =
     (\<lambda>_. 0)
       (ADD := 1, NEG := 2, MUL := 3, DIV := 4, MOD := 5,
        CMP := 6, JA := 7, JE := 8, JB := 9, JMP := 10,
        CALL := 11, RET := 12,
        LOAD := 13, STORE := 14, CONST_op := 15, RLOAD := 16, RSTORE := 17,
        HALT := 18, INT_op := 19, NOP := 20,
        PUSH := 21, PUSH_ALL := 22, POP := 23, POP_ALL := 24, LSP := 25)"

text \<open>
  \<^verbatim>\<open>x += sizeof(int32_t) - (x % sizeof(int32_t))\<close> on an \<^verbatim>\<open>int32_t x\<close>: \<open>x\<close> is
  converted to \<^verbatim>\<open>size_t\<close>, the sum is made there, and its low 32 bits are stored.
\<close>

definition round_to_word :: "int32_t \<Rightarrow> int32_t" where
  "round_to_word x =
     word_of_int ((size_t_of x + ((4 - size_t_of x mod 4) mod 2 ^ 64)) mod 2 ^ 64)"

text \<open>
  \<^verbatim>\<open>calloc\<close> is taken to succeed for a non-negative size; for a negative
  \<^verbatim>\<open>memory_size\<close> there is no buffer.
\<close>

definition InitializeVM :: "TOYVM \<Rightarrow> int32_t \<Rightarrow> int32_t \<Rightarrow> TOYVM" where
  "InitializeVM vm memory_size0 stack_limit0 =
     (let memory_size1 = round_to_word memory_size0;
          stack_limit1 = round_to_word stack_limit0
      in vm\<lparr>memory := replicate (nat (sint memory_size1)) 0,
            memory_size := memory_size1,
            stack_limit := stack_limit1,
            cpu := \<lparr>registers = replicate N_REGISTERS 0,
                    program_counter = 0,
                    stack_pointer = memory_size1,
                    status = \<lparr>BAD_INSTRUCTION = False, STACK_UNDERFLOW = False,
                              STACK_OVERFLOW = False, INVALID_REGISTER_INDEX = False,
                              BAD_ACCESS = False, COMPARISON_BELOW = False,
                              COMPARISON_EQUAL = False, COMPARISON_ABOVE = False\<rparr>\<rparr>,
            opcode_map := initial_opcode_map\<rparr>)"

text \<open>
  \<^verbatim>\<open>memcpy(dest, src, n)\<close> on two separate buffers: the bytes \<open>0\<close> to \<open>n - 1\<close> of \<open>src\<close>
  are stored in \<open>dest\<close>; undefined when either buffer is shorter than \<open>n\<close>.
\<close>

primrec memcpy :: "uint8_t list \<Rightarrow> uint8_t list \<Rightarrow> nat \<Rightarrow> uint8_t list option" where
  "memcpy dest src 0 = Some dest"
| "memcpy dest src (Suc n) =
     (case memcpy dest src n of
        None \<Rightarrow> None
      | Some d \<Rightarrow> if n < length d \<and> n < length src then Some (d[n := src ! n]) else None)"

text \<open>
  \<^verbatim>\<open>WriteVMMemory(vm, mem, size)\<close> is \<^verbatim>\<open>memcpy(mem, vm->memory, size)\<close>: the
  destination is the caller's buffer \<open>mem\<close>, a buffer of its own, and the source is the
  memory of the machine. The argument \<open>n\<close> is \<^verbatim>\<open>size\<close>. The result is the machine and
  the caller's buffer after the call.
\<close>

definition WriteVMMemory :: "TOYVM \<Rightarrow> uint8_t list \<Rightarrow> nat \<Rightarrow> (TOYVM \<times> uint8_t list) option" where
  "WriteVMMemory vm mem n =
     map_option (\<lambda>mem'. (vm, mem')) (memcpy mem (memory vm) n)"

subsection \<open>Concrete states\<close>

text \<open>
  A state with the buffer \<open>mem\<close>, \<open>memory_size\<close> its length, no flag set, nothing printed,
  and the opcode map that \<open>InitializeVM\<close> builds.
\<close>

definition vm_state ::
  "uint8_t list \<Rightarrow> int32_t \<Rightarrow> int32_t list \<Rightarrow> int32_t \<Rightarrow> int32_t \<Rightarrow> TOYVM" where
  "vm_state mem limit regs pc sp =
     \<lparr>memory = mem, memory_size = of_nat (length mem), stack_limit = limit,
      cpu = \<lparr>registers = regs, program_counter = pc, stack_pointer = sp,
              status = \<lparr>BAD_INSTRUCTION = False, STACK_UNDERFLOW = False,
                        STACK_OVERFLOW = False, INVALID_REGISTER_INDEX = False,
                        BAD_ACCESS = False, COMPARISON_BELOW = False,
                        COMPARISON_EQUAL = False, COMPARISON_ABOVE = False\<rparr>\<rparr>,
      opcode_map = initial_opcode_map, stdout = []\<rparr>"

text \<open>
  The state that \<^verbatim>\<open>main\<close> passes to \<open>RunVM\<close> for a program file:
  \<^verbatim>\<open>InitializeVM(&vm, 2 * file_size, file_size)\<close>, then
  \<^verbatim>\<open>fread(vm.memory, 1, file_size, file)\<close>, which is undefined when the buffer is
  shorter than the file. Nothing is printed before.
\<close>

definition main_state :: "uint8_t list \<Rightarrow> TOYVM option" where
  "main_state file =
     (let file_size = length file;
          vm = InitializeVM (vm_state [] 0 [] 0 0) (of_nat (2 * file_size)) (of_nat file_size)
      in if file_size \<le> length (memory vm)
         then Some (vm\<lparr>memory := file @ drop file_size (memory vm)\<rparr>)
         else None)"

text \<open>
  The program \<^verbatim>\<open>CONST REG1, 99; PUSH REG1; CONST REG1, 7; PUSH REG1; POP REG2; HALT\<close>.
\<close>

definition push_pop_file :: "uint8_t list" where
  "push_pop_file =
     [CONST_op, REG1, 99, 0, 0, 0, PUSH, REG1, CONST_op, REG1, 7, 0, 0, 0, PUSH, REG1,
      POP, REG2, HALT]"

text \<open>
  \<^verbatim>\<open>PUSH REG1; POP REG2; HALT\<close> with one word, 99, on the stack and 7 in the first
  register: the state before the \<^verbatim>\<open>PUSH\<close>, after it, and after the \<^verbatim>\<open>POP\<close>.
\<close>

definition push_pop_start :: TOYVM where
  "push_pop_start =
     vm_state [PUSH, REG1, POP, REG2, HALT, 0, 0, 0, 0, 0, 0, 0, 99, 0, 0, 0] 8 [7, 0, 0, 0] 0 12"

definition push_pop_pushed :: TOYVM where
  "push_pop_pushed =
     vm_state [PUSH, REG1, POP, REG2, HALT, 0, 0, 0, 7, 0, 0, 0, 99, 0, 0, 0] 8 [7, 0, 0, 0] 2 8"

definition push_pop_popped :: TOYVM where
  "push_pop_popped =
     vm_state [PUSH, REG1, POP, REG2, HALT, 0, 0, 0, 7, 0, 0, 0, 99, 0, 0, 0] 8 [7, 99, 0, 0] 4 12"

text \<open>
  \<^verbatim>\<open>CALL 8\<close> at address 0 and \<^verbatim>\<open>RET\<close> at address 8, on an empty stack: the state
  before the \<^verbatim>\<open>CALL\<close>, after it, and after the \<^verbatim>\<open>RET\<close>.
\<close>

definition call_ret_start :: TOYVM where
  "call_ret_start =
     vm_state [CALL, 8, 0, 0, 0, HALT, 0, 0, RET, 0, 0, 0, 0, 0, 0, 0] 12 [0, 0, 0, 0] 0 16"

definition call_ret_called :: TOYVM where
  "call_ret_called =
     vm_state [CALL, 8, 0, 0, 0, HALT, 0, 0, RET, 0, 0, 0, 5, 0, 0, 0] 12 [0, 0, 0, 0] 8 12"

definition call_ret_returned :: TOYVM where
  "call_ret_returned =
     vm_state [CALL, 8, 0, 0, 0, HALT, 0, 0, RET, 0, 0, 0, 5, 0, 0, 0] 12 [0, 0, 0, 0] 5 16"

section \<open>Properties\<close>

subsection \<open>The opcode map and the lengths of the instructions\<close>

lemma GetInstructionLength_initial:
  assumes "opcode_map vm = initial_opcode_map"
  shows "GetInstructionLength vm ADD = Some 3"
    "GetInstructionLength vm NEG = Some 2"
    "GetInstructionLength vm MUL = Some 3"
    "GetInstructionLength vm DIV = Some 3"
    "GetInstructionLength vm MOD = Some 3"
    "GetInstructionLength vm CMP = Some 3"
    "GetInstructionLength vm JA = Some 5"
    "GetInstructionLength vm JE = Some 5"
    "GetInstructionLength vm JB = Some 5"
    "GetInstructionLength vm JMP = Some 5"
    "GetInstructionLength vm CALL = Some 5"
    "GetInstructionLength vm RET = Some 1"
    "GetInstructionLength vm LOAD = Some 6"
    "GetInstructionLength vm STORE = Some 6"
    "GetInstructionLength vm CONST_op = Some 6"
    "GetInstructionLength vm RLOAD = Some 3"
    "GetInstructionLength vm RSTORE = Some 3"
    "GetInstructionLength vm HALT = Some 1"
    "GetInstructionLength vm INT_op = Some 2"
    "GetInstructionLength vm NOP = Some 1"
    "GetInstructionLength vm PUSH = Some 2"
    "GetInstructionLength vm PUSH_ALL = Some 1"
    "GetInstructionLength vm POP = Some 2"
    "GetInstructionLength vm POP_ALL = Some 1"
    "GetInstructionLength vm LSP = Some 2"
  using assms
  by (simp_all add: GetInstructionLength_def initial_opcode_map_def instructions_def opcode_defs)

lemma initial_opcode_map_cases:
  assumes "initial_opcode_map opcode \<noteq> 0"
  shows "opcode = ADD \<or> opcode = NEG \<or> opcode = MUL \<or> opcode = DIV \<or> opcode = MOD \<or>
         opcode = CMP \<or> opcode = JA \<or> opcode = JE \<or> opcode = JB \<or> opcode = JMP \<or>
         opcode = CALL \<or> opcode = RET \<or>
         opcode = LOAD \<or> opcode = STORE \<or> opcode = CONST_op \<or> opcode = RLOAD \<or>
         opcode = RSTORE \<or>
         opcode = HALT \<or> opcode = INT_op \<or> opcode = NOP \<or>
         opcode = PUSH \<or> opcode = PUSH_ALL \<or> opcode = POP \<or> opcode = POP_ALL \<or>
         opcode = LSP"
  using assms by (simp add: initial_opcode_map_def split: if_splits)

lemma initial_opcode_map_values:
  "initial_opcode_map ADD = 1" "initial_opcode_map NEG = 2" "initial_opcode_map MUL = 3"
  "initial_opcode_map DIV = 4" "initial_opcode_map MOD = 5" "initial_opcode_map CMP = 6"
  "initial_opcode_map JA = 7" "initial_opcode_map JE = 8" "initial_opcode_map JB = 9"
  "initial_opcode_map JMP = 10" "initial_opcode_map CALL = 11" "initial_opcode_map RET = 12"
  "initial_opcode_map LOAD = 13" "initial_opcode_map STORE = 14"
  "initial_opcode_map CONST_op = 15" "initial_opcode_map RLOAD = 16"
  "initial_opcode_map RSTORE = 17" "initial_opcode_map HALT = 18"
  "initial_opcode_map INT_op = 19" "initial_opcode_map NOP = 20"
  "initial_opcode_map PUSH = 21" "initial_opcode_map PUSH_ALL = 22"
  "initial_opcode_map POP = 23" "initial_opcode_map POP_ALL = 24"
  "initial_opcode_map LSP = 25"
  by (simp_all add: initial_opcode_map_def opcode_defs)

subsection \<open>Integers\<close>

lemma sint32_bounds:
  fixes w :: int32_t
  shows "- (2 ^ 31) \<le> sint w" and "sint w < 2 ^ 31"
  using sint_ge [of w] sint_lt [of w] by simp_all

lemma sint_word_of_int32:
  assumes "- (2 ^ 31) \<le> i" "i < 2 ^ 31"
  shows "sint (word_of_int i :: int32_t) = i"
  using assms by (simp add: sint_sbintrunc' signed_take_bit_int_eq_self)

lemma int32_of_int_SomeD:
  assumes "int32_of_int i = Some w"
  shows "sint w = i" and "- (2 ^ 31) \<le> i" and "i < 2 ^ 31"
proof -
  from assms show r: "- (2 ^ 31) \<le> i" "i < 2 ^ 31"
    by (simp_all add: int32_of_int_def split: if_splits)
  from assms have "w = word_of_int i"
    by (simp add: int32_of_int_def split: if_splits)
  with r show "sint w = i"
    by (simp only: sint_word_of_int32)
qed

lemma int32_of_int_sint: "int32_of_int (sint w) = Some w"
  using sint32_bounds [of w] by (simp add: int32_of_int_def)

lemma sint_add_int32:
  fixes w :: int32_t
  assumes "- (2 ^ 31) \<le> sint w + k" "sint w + k < 2 ^ 31"
  shows "sint (w + word_of_int k) = sint w + k"
proof -
  have "w + word_of_int k = word_of_int (sint w + k)"
    by simp
  then show ?thesis
    using assms by (simp only: sint_word_of_int32)
qed

lemma sint_eq_imp_eq:
  fixes a b :: int32_t
  shows "sint a = sint b \<Longrightarrow> a = b"
  by (rule signed_word_eqI)

lemma size_t_of_eq:
  "size_t_of w = (if sint w < 0 then sint w + 2 ^ 64 else sint w)"
proof -
  have b: "- (2 ^ 31) \<le> sint w" "sint w < 2 ^ 31"
    using sint_ge [of w] sint_lt [of w] by simp_all
  show ?thesis
  proof (cases "sint w < 0")
    case True
    have "sint w mod 2 ^ 64 = (sint w + 2 ^ 64) mod 2 ^ 64" by simp
    also have "\<dots> = sint w + 2 ^ 64" using b True by (intro mod_pos_pos_trivial) simp_all
    finally show ?thesis using True by (simp add: size_t_of_def)
  next
    case False
    then show ?thesis using b by (simp add: size_t_of_def)
  qed
qed

text \<open>The remainder has the sign of the dividend, and is smaller than the divisor.\<close>

lemma c_mod_eq: "c_mod a b = sgn a * (\<bar>a\<bar> mod \<bar>b\<bar>)"
proof -
  have "b * (sgn a * sgn b * (\<bar>a\<bar> div \<bar>b\<bar>)) = sgn a * (\<bar>b\<bar> * (\<bar>a\<bar> div \<bar>b\<bar>))"
    by (simp add: abs_sgn mult.commute mult.left_commute)
  also have "\<bar>b\<bar> * (\<bar>a\<bar> div \<bar>b\<bar>) = \<bar>a\<bar> - \<bar>a\<bar> mod \<bar>b\<bar>"
    by (simp add: minus_mod_eq_mult_div)
  finally have "c_mod a b = a - sgn a * (\<bar>a\<bar> - \<bar>a\<bar> mod \<bar>b\<bar>)"
    by (simp add: c_mod_def c_div_def)
  also have "\<dots> = sgn a * (\<bar>a\<bar> mod \<bar>b\<bar>)"
    by (simp add: right_diff_distrib flip: abs_sgn [of a] mult_sgn_abs)
  finally show ?thesis .
qed


lemma c_mod_range:
  assumes "b \<noteq> 0"
  shows "\<bar>c_mod a b\<bar> < \<bar>b\<bar>"
proof -
  have nn: "0 \<le> \<bar>a\<bar> mod \<bar>b\<bar>"
    using assms by simp
  have "\<bar>c_mod a b\<bar> = \<bar>sgn a\<bar> * (\<bar>a\<bar> mod \<bar>b\<bar>)"
    using nn by (simp add: c_mod_eq abs_mult)
  also have "\<dots> \<le> \<bar>a\<bar> mod \<bar>b\<bar>"
    using nn by (cases "a = 0") (simp_all add: abs_sgn_eq)
  also have "\<dots> < \<bar>b\<bar>"
    using assms by simp
  finally show ?thesis .
qed

lemma c_div_range:
  assumes "- (2 ^ 31) \<le> a" "a < 2 ^ 31" "b \<noteq> 0" "\<not> (a = - (2 ^ 31) \<and> b = - 1)"
  shows "- (2 ^ 31) \<le> c_div a b \<and> c_div a b < 2 ^ 31"
proof (cases "\<bar>b\<bar> = 1")
  case True
  then consider "b = 1" | "b = - 1" by linarith
  then show ?thesis
  proof cases
    case 1
    then show ?thesis using assms(1,2) by (simp add: c_div_def mult_sgn_abs)
  next
    case 2
    then show ?thesis using assms(1,2,4) by (simp add: c_div_def mult_sgn_abs)
  qed
next
  case False
  with assms(3) have b: "2 \<le> \<bar>b\<bar>" by linarith
  have "\<bar>a\<bar> div \<bar>b\<bar> \<le> \<bar>a\<bar> div 2"
    using b by (intro zdiv_mono2) simp_all
  also have "\<dots> < 2 ^ 31"
    using assms(1,2) by linarith
  finally have d: "\<bar>a\<bar> div \<bar>b\<bar> < 2 ^ 31" .
  have nn: "0 \<le> \<bar>a\<bar> div \<bar>b\<bar>"
    using assms(3) by (simp add: pos_imp_zdiv_nonneg_iff)
  have "\<bar>c_div a b\<bar> = \<bar>sgn a\<bar> * \<bar>sgn b\<bar> * (\<bar>a\<bar> div \<bar>b\<bar>)"
    using nn by (simp add: c_div_def abs_mult)
  also have "\<dots> \<le> \<bar>a\<bar> div \<bar>b\<bar>"
    using nn by (cases "a = 0"; cases "b = 0") (simp_all add: abs_sgn_eq)
  finally show ?thesis using d by linarith
qed

lemma int32_mod_eq:
  assumes "sint b \<noteq> 0" "\<not> (sint a = - (2 ^ 31) \<and> sint b = - 1)"
  shows "int32_mod a b = Some (word_of_int (c_mod (sint a) (sint b)))"
    and "sint (word_of_int (c_mod (sint a) (sint b)) :: int32_t) = c_mod (sint a) (sint b)"
proof -
  have q: "- (2 ^ 31) \<le> c_div (sint a) (sint b) \<and> c_div (sint a) (sint b) < 2 ^ 31"
    using sint32_bounds [of a] assms by (intro c_div_range) simp_all
  have "\<bar>c_mod (sint a) (sint b)\<bar> < \<bar>sint b\<bar>"
    using assms(1) by (rule c_mod_range)
  then have r: "- (2 ^ 31) \<le> c_mod (sint a) (sint b)" "c_mod (sint a) (sint b) < 2 ^ 31"
    using sint32_bounds [of b] by linarith+
  from r show "sint (word_of_int (c_mod (sint a) (sint b)) :: int32_t) = c_mod (sint a) (sint b)"
    by (rule sint_word_of_int32)
  from q r assms(1) show "int32_mod a b = Some (word_of_int (c_mod (sint a) (sint b)))"
    by (simp add: int32_mod_def int32_of_int_def)
qed

subsection \<open>The length check\<close>

lemma fits_arith:
  fixes p m :: int
  assumes "- (2 ^ 31) \<le> p" "p < 2 ^ 31" "0 \<le> m" "m < p + int n" "n < 2 ^ 31"
  shows "\<not> ((if p < 0 then p + 2 ^ 64 else p) + int n) mod 2 ^ 64 \<le> m"
proof -
  have n: "int n < 2 ^ 31" using assms(5) by (simp add: nat_less_iff)
  show ?thesis
  proof (cases "p < 0")
    case True
    have "p + 2 ^ 64 + int n = (p + int n) + 2 ^ 64" by simp
    then have "(p + 2 ^ 64 + int n) mod 2 ^ 64 = (p + int n) mod 2 ^ 64"
      by (simp only: mod_add_self2)
    also have "\<dots> = p + int n"
      using assms(1-4) n True by (intro mod_pos_pos_trivial) simp_all
    finally show ?thesis using assms(4) True by simp
  next
    case False
    have "(p + int n) mod 2 ^ 64 = p + int n"
      using assms(1-4) n False by (intro mod_pos_pos_trivial) simp_all
    then show ?thesis using assms(4) False by simp
  qed
qed

lemma not_fits:
  assumes "GetInstructionLength vm opcode = Some n" "0 \<le> sint (memory_size vm)"
    "sint (memory_size vm) < sint (program_counter (cpu vm)) + int n" "n < 2 ^ 31"
  shows "InstructionFitsInMemory vm opcode = Some False"
proof -
  have b: "- (2 ^ 31) \<le> sint (program_counter (cpu vm))" "sint (program_counter (cpu vm)) < 2 ^ 31"
    using sint_ge [of "program_counter (cpu vm)"] sint_lt [of "program_counter (cpu vm)"] by simp_all
  have "\<not> (size_t_of (program_counter (cpu vm)) + int n) mod 2 ^ 64 \<le> sint (memory_size vm)"
    unfolding size_t_of_eq [of "program_counter (cpu vm)"]
    using b assms(2,3,4) by (rule fits_arith)
  moreover have "size_t_of (memory_size vm) = sint (memory_size vm)"
    using assms(2) by (simp add: size_t_of_eq)
  ultimately show ?thesis using assms(1) by (simp add: InstructionFitsInMemory_def)
qed

lemma fits_imp:
  assumes "InstructionFitsInMemory vm opcode = Some True"
    and "GetInstructionLength vm opcode = Some n" and "n < 2 ^ 31"
    and "0 \<le> sint (memory_size vm)" and "0 \<le> sint (program_counter (cpu vm))"
  shows "sint (program_counter (cpu vm)) + int n \<le> sint (memory_size vm)"
proof -
  have n: "int n < 2 ^ 31" using assms(3) by (simp add: nat_less_iff)
  have "(sint (program_counter (cpu vm)) + int n) mod 2 ^ 64
          = sint (program_counter (cpu vm)) + int n"
    using assms(5) n sint32_bounds(2) [of "program_counter (cpu vm)"]
    by (intro mod_pos_pos_trivial) simp_all
  then show ?thesis
    using assms(1,2,4,5) by (simp add: InstructionFitsInMemory_def size_t_of_eq)
qed

lemma fits_intro:
  assumes "GetInstructionLength vm opcode = Some n" and "n < 2 ^ 31"
    and "0 \<le> sint (program_counter (cpu vm))"
    and "sint (program_counter (cpu vm)) + int n \<le> sint (memory_size vm)"
  shows "InstructionFitsInMemory vm opcode = Some True"
proof -
  have n: "int n < 2 ^ 31" using assms(2) by (simp add: nat_less_iff)
  have "(sint (program_counter (cpu vm)) + int n) mod 2 ^ 64
          = sint (program_counter (cpu vm)) + int n"
    using assms(3) n sint32_bounds(2) [of "program_counter (cpu vm)"]
    by (intro mod_pos_pos_trivial) simp_all
  then show ?thesis
    using assms(1,3,4) by (simp add: InstructionFitsInMemory_def size_t_of_eq)
qed

lemma rule_does_not_fit:
  shows "InstructionFitsInMemory vm ADD = Some False \<Longrightarrow>
       ExecuteAdd vm = Return True (set_status (\<lambda>s. s\<lparr>BAD_ACCESS := True\<rparr>) vm)"
    and "InstructionFitsInMemory vm NEG = Some False \<Longrightarrow>
       ExecuteNeg vm = Return True (set_status (\<lambda>s. s\<lparr>BAD_ACCESS := True\<rparr>) vm)"
    and "InstructionFitsInMemory vm MUL = Some False \<Longrightarrow>
       ExecuteMul vm = Return True (set_status (\<lambda>s. s\<lparr>BAD_ACCESS := True\<rparr>) vm)"
    and "InstructionFitsInMemory vm DIV = Some False \<Longrightarrow>
       ExecuteDiv vm = Return True (set_status (\<lambda>s. s\<lparr>BAD_ACCESS := True\<rparr>) vm)"
    and "InstructionFitsInMemory vm MOD = Some False \<Longrightarrow>
       ExecuteMod vm = Return True (set_status (\<lambda>s. s\<lparr>BAD_ACCESS := True\<rparr>) vm)"
    and "InstructionFitsInMemory vm CMP = Some False \<Longrightarrow>
       ExecuteCmp vm = Return True (set_status (\<lambda>s. s\<lparr>BAD_ACCESS := True\<rparr>) vm)"
    and "InstructionFitsInMemory vm JA = Some False \<Longrightarrow>
       ExecuteJumpIfAbove vm = Return True (set_status (\<lambda>s. s\<lparr>BAD_ACCESS := True\<rparr>) vm)"
    and "InstructionFitsInMemory vm JE = Some False \<Longrightarrow>
       ExecuteJumpIfEqual vm = Return True (set_status (\<lambda>s. s\<lparr>BAD_ACCESS := True\<rparr>) vm)"
    and "InstructionFitsInMemory vm JB = Some False \<Longrightarrow>
       ExecuteJumpIfBelow vm = Return True (set_status (\<lambda>s. s\<lparr>BAD_ACCESS := True\<rparr>) vm)"
    and "InstructionFitsInMemory vm JMP = Some False \<Longrightarrow>
       ExecuteJump vm = Return True (set_status (\<lambda>s. s\<lparr>BAD_ACCESS := True\<rparr>) vm)"
    and "InstructionFitsInMemory vm CALL = Some False \<Longrightarrow>
       ExecuteCall vm = Return True (set_status (\<lambda>s. s\<lparr>BAD_ACCESS := True\<rparr>) vm)"
    and "InstructionFitsInMemory vm RET = Some False \<Longrightarrow>
       ExecuteRet vm = Return True (set_status (\<lambda>s. s\<lparr>BAD_ACCESS := True\<rparr>) vm)"
    and "InstructionFitsInMemory vm LOAD = Some False \<Longrightarrow>
       ExecuteLoad vm = Return True (set_status (\<lambda>s. s\<lparr>BAD_ACCESS := True\<rparr>) vm)"
    and "InstructionFitsInMemory vm STORE = Some False \<Longrightarrow>
       ExecuteStore vm = Return True (set_status (\<lambda>s. s\<lparr>BAD_ACCESS := True\<rparr>) vm)"
    and "InstructionFitsInMemory vm CONST_op = Some False \<Longrightarrow>
       ExecuteConst vm = Return True (set_status (\<lambda>s. s\<lparr>BAD_ACCESS := True\<rparr>) vm)"
    and "InstructionFitsInMemory vm RLOAD = Some False \<Longrightarrow>
       ExecuteRload vm = Return True (set_status (\<lambda>s. s\<lparr>BAD_ACCESS := True\<rparr>) vm)"
    and "InstructionFitsInMemory vm RSTORE = Some False \<Longrightarrow>
       ExecuteRstore vm = Return True (set_status (\<lambda>s. s\<lparr>BAD_ACCESS := True\<rparr>) vm)"
    and "InstructionFitsInMemory vm INT_op = Some False \<Longrightarrow>
       ExecuteInterrupt vm = Return True (set_status (\<lambda>s. s\<lparr>BAD_ACCESS := True\<rparr>) vm)"
    and "InstructionFitsInMemory vm NOP = Some False \<Longrightarrow>
       ExecuteNop vm = Return True (set_status (\<lambda>s. s\<lparr>BAD_ACCESS := True\<rparr>) vm)"
    and "InstructionFitsInMemory vm PUSH = Some False \<Longrightarrow>
       ExecutePush vm = Return True (set_status (\<lambda>s. s\<lparr>BAD_ACCESS := True\<rparr>) vm)"
    and "InstructionFitsInMemory vm PUSH_ALL = Some False \<Longrightarrow>
       ExecutePushAll vm = Return True (set_status (\<lambda>s. s\<lparr>BAD_ACCESS := True\<rparr>) vm)"
    and "InstructionFitsInMemory vm POP = Some False \<Longrightarrow>
       ExecutePop vm = Return True (set_status (\<lambda>s. s\<lparr>BAD_ACCESS := True\<rparr>) vm)"
    and "InstructionFitsInMemory vm POP_ALL = Some False \<Longrightarrow>
       ExecutePopAll vm = Return True (set_status (\<lambda>s. s\<lparr>BAD_ACCESS := True\<rparr>) vm)"
    and "InstructionFitsInMemory vm LSP = Some False \<Longrightarrow>
       ExecuteLSP vm = Return True (set_status (\<lambda>s. s\<lparr>BAD_ACCESS := True\<rparr>) vm)"
  by (simp_all add: defined_def ExecuteAdd_def ExecuteNeg_def ExecuteMul_def ExecuteDiv_def ExecuteMod_def ExecuteCmp_def ExecuteJumpIfAbove_def ExecuteJumpIfEqual_def ExecuteJumpIfBelow_def ExecuteJump_def ExecuteCall_def ExecuteRet_def ExecuteLoad_def ExecuteStore_def ExecuteConst_def ExecuteRload_def ExecuteRstore_def ExecuteInterrupt_def ExecuteNop_def ExecutePush_def ExecutePushAll_def ExecutePop_def ExecutePopAll_def ExecuteLSP_def)


subsection \<open>Registers and memory\<close>

lemma IsValidRegisterIndex_iff: "IsValidRegisterIndex b \<longleftrightarrow> unat b < N_REGISTERS"
proof -
  have "unat b = 0 \<or> unat b = 1 \<or> unat b = 2 \<or> unat b = 3 \<longleftrightarrow> unat b < 4"
    by arith
  then show ?thesis
    by (simp add: IsValidRegisterIndex_def register_defs N_REGISTERS_def word_unat_eq_iff)
qed

lemma ReadByteAtPC_eq:
  assumes "0 \<le> sint (program_counter (cpu vm)) + k"
    and "sint (program_counter (cpu vm)) + k < int (length (memory vm))"
    and "sint (program_counter (cpu vm)) + k < 2 ^ 31"
  shows "ReadByteAtPC vm k = Some (memory vm ! nat (sint (program_counter (cpu vm)) + k))"
proof -
  have "sint (word_of_int (sint (program_counter (cpu vm)) + k) :: int32_t)
          = sint (program_counter (cpu vm)) + k"
    using assms(1,3) by (intro sint_word_of_int32) simp_all
  then have "size_t_of (word_of_int (sint (program_counter (cpu vm)) + k))
          = sint (program_counter (cpu vm)) + k"
    using assms(1) by (simp add: size_t_of_eq)
  then show ?thesis
    using assms by (simp add: ReadByteAtPC_def int32_of_int_def ReadByte_def)
qed

lemma masks: "(0xff :: int32_t) = mask 8" "(0xff00 :: int32_t) = push_bit 8 (mask 8)"
    "(0xff0000 :: int32_t) = push_bit 16 (mask 8)" "(0xff000000 :: int32_t) = push_bit 24 (mask 8)"
    by (simp_all add: mask_eq_exp_minus_1)

lemma byte_of_word:
  fixes v :: int32_t
  assumes "k + 8 \<le> 32"
  shows "push_bit k (ucast (ucast (drop_bit k (v AND push_bit k (mask 8))) :: uint8_t))
           = v AND push_bit k (mask 8)"
proof (rule bit_word_eqI)
  fix n
  assume "n < LENGTH(32)"
  then show "bit (push_bit k (ucast (ucast (drop_bit k (v AND push_bit k (mask 8))) :: uint8_t) :: int32_t)) n
     = bit (v AND push_bit k (mask 8)) n"
    using assms by (cases "k \<le> n") (auto simp add: bit_simps)
qed

lemma word_of_bytes:
  fixes v :: int32_t
  shows "push_bit 24 (ucast (ucast (drop_bit 24 (v AND 0xff000000)) :: uint8_t))
           OR push_bit 16 (ucast (ucast (drop_bit 16 (v AND 0xff0000)) :: uint8_t))
           OR push_bit 8 (ucast (ucast (drop_bit 8 (v AND 0xff00)) :: uint8_t))
           OR ucast (ucast (v AND 0xff) :: uint8_t) = v"
proof -
  have b0: "ucast (ucast (v AND 0xff) :: uint8_t) = v AND 0xff"
    using byte_of_word [of 0 v] by (simp add: masks)
  have b1: "push_bit 8 (ucast (ucast (drop_bit 8 (v AND 0xff00)) :: uint8_t)) = v AND 0xff00"
    using byte_of_word [of 8 v] by (simp add: masks)
  have b2: "push_bit 16 (ucast (ucast (drop_bit 16 (v AND 0xff0000)) :: uint8_t)) = v AND 0xff0000"
    using byte_of_word [of 16 v] by (simp add: masks)
  have b3: "push_bit 24 (ucast (ucast (drop_bit 24 (v AND 0xff000000)) :: uint8_t)) = v AND 0xff000000"
    using byte_of_word [of 24 v] by (simp add: masks)
  have "(v AND 0xff000000) OR (v AND 0xff0000) OR (v AND 0xff00) OR (v AND 0xff)
          = v AND (0xff000000 OR 0xff0000 OR 0xff00 OR 0xff)"
    by (simp only: bit.conj_disj_distrib)
  also have "(0xff000000 OR 0xff0000 OR 0xff00 OR 0xff :: int32_t) = - 1"
    by simp
  finally show ?thesis
    by (simp only: b0 b1 b2 b3) simp
qed


lemma ReadWord_cong:
  "memory vm' = memory vm \<Longrightarrow> ReadWord vm' a = ReadWord vm a"
  by (simp add: ReadWord_def Let_def)

text \<open>A word written is the word read back, and a word elsewhere is left as it was.\<close>

lemma ReadWord_WriteWord:
  assumes "WriteWord vm a v = Some vm'"
  shows "ReadWord vm' a = Some v"
proof -
  define n where "n = nat (sint a)"
  have r: "0 \<le> sint a" "sint a + 3 < int (length (memory vm))" "sint a + 3 < 2 ^ 31"
    using assms by (auto simp add: WriteWord_def Let_def split: if_splits)
  have i: "nat (sint a) = n" "nat (sint a + 1) = n + 1" "nat (sint a + 2) = n + 2"
    "nat (sint a + 3) = n + 3" "n + 3 < length (memory vm)"
    using r by (simp_all add: n_def nat_add_distrib)
  have m: "memory vm' =
      (memory vm)[n := ucast (v AND 0xff), n + 1 := ucast (drop_bit 8 (v AND 0xff00)),
                  n + 2 := ucast (drop_bit 16 (v AND 0xff0000)),
                  n + 3 := ucast (drop_bit 24 (v AND 0xff000000))]"
    using assms r by (auto simp add: WriteWord_def Let_def i split: if_splits)
  have "ReadWord vm' a =
      Some (push_bit 24 (ucast (ucast (drop_bit 24 (v AND 0xff000000)) :: uint8_t))
           OR push_bit 16 (ucast (ucast (drop_bit 16 (v AND 0xff0000)) :: uint8_t))
           OR push_bit 8 (ucast (ucast (drop_bit 8 (v AND 0xff00)) :: uint8_t))
           OR ucast (ucast (v AND 0xff) :: uint8_t))"
    using r i(5) by (simp add: ReadWord_def Let_def i(1-4) m)
  then show ?thesis by (simp only: word_of_bytes)
qed

lemma WriteWord_SomeD:
  assumes "WriteWord vm a v = Some vm'"
  shows "0 \<le> sint a" and "sint a + 3 < int (length (memory vm))"
    and "length (memory vm') = length (memory vm)"
    and "cpu vm' = cpu vm" and "opcode_map vm' = opcode_map vm"
    and "memory_size vm' = memory_size vm" and "stack_limit vm' = stack_limit vm"
    and "stdout vm' = stdout vm"
    and "\<And>i. i < nat (sint a) \<or> nat (sint a) + 3 < i \<Longrightarrow> memory vm' ! i = memory vm ! i"
  using assms
  by (auto simp add: WriteWord_def Let_def nat_add_distrib split: if_splits)

lemma ReadWord_WriteWord_other:
  assumes "WriteWord vm a v = Some vm'"
    and "sint b + 3 < sint a \<or> sint a + 3 < sint b"
  shows "ReadWord vm' b = ReadWord vm b"
proof (cases "0 \<le> sint b \<and> sint b + 3 < int (length (memory vm)) \<and> sint b + 3 < 2 ^ 31")
  case True
  note w = WriteWord_SomeD [OF assms(1)]
  have "memory vm' ! nat (sint b + k) = memory vm ! nat (sint b + k)" if "0 \<le> k" "k \<le> 3" for k
    using that True assms(2) w(1) by (intro w(9)) linarith
  from this [of 0] this [of 1] this [of 2] this [of 3] show ?thesis
    by (simp add: ReadWord_def Let_def w(3))
next
  case False
  then show ?thesis
    using WriteWord_SomeD(3) [OF assms(1)] by (auto simp add: ReadWord_def Let_def)
qed

lemma WriteWord_again:
  assumes "WriteWord vm a v = Some vm'"
  shows "WriteWord vm' a v = Some vm'"
proof -
  note w = WriteWord_SomeD [OF assms]
  have m: "memory vm' =
      (memory vm)[nat (sint a) := ucast (v AND 0xff),
                  nat (sint a + 1) := ucast (drop_bit 8 (v AND 0xff00)),
                  nat (sint a + 2) := ucast (drop_bit 16 (v AND 0xff0000)),
                  nat (sint a + 3) := ucast (drop_bit 24 (v AND 0xff000000))]"
    using assms by (auto simp add: WriteWord_def Let_def split: if_splits)
  have "(memory vm')[nat (sint a) := ucast (v AND 0xff),
                  nat (sint a + 1) := ucast (drop_bit 8 (v AND 0xff00)),
                  nat (sint a + 2) := ucast (drop_bit 16 (v AND 0xff0000)),
                  nat (sint a + 3) := ucast (drop_bit 24 (v AND 0xff000000))] = memory vm'"
    unfolding m using w(1,2)
    by (simp add: list_eq_iff_nth_eq nth_list_update nat_add_distrib)
  then show ?thesis
    using assms w(3) by (auto simp add: WriteWord_def Let_def split: if_splits)
qed

lemma memcpy_eq:
  "memcpy dest src n =
     (if n \<le> length dest \<and> n \<le> length src then Some (take n src @ drop n dest) else None)"
proof (induction n)
  case 0
  show ?case by simp
next
  case (Suc n)
  show ?case
  proof (cases "Suc n \<le> length dest \<and> Suc n \<le> length src")
    case True
    then have n: "n < length dest" "n < length src" by simp_all
    have "(take n src @ drop n dest)[n := src ! n] = take (Suc n) src @ drop (Suc n) dest"
      using n by (simp add: take_Suc_conv_app_nth list_update_append upd_conv_take_nth_drop
                    Cons_nth_drop_Suc [symmetric] min_def)
    with Suc n show ?thesis by simp
  next
    case False
    with Suc show ?thesis by auto
  qed
qed

subsection \<open>The state after InitializeVM\<close>

lemma InitializeVM_state:
  shows "opcode_map (InitializeVM vm m l) = initial_opcode_map"
    and "length (registers (cpu (InitializeVM vm m l))) = N_REGISTERS"
    and "length (memory (InitializeVM vm m l)) = nat (sint (memory_size (InitializeVM vm m l)))"
    and "program_counter (cpu (InitializeVM vm m l)) = 0"
    and "stack_pointer (cpu (InitializeVM vm m l)) = memory_size (InitializeVM vm m l)"
    and "StackIsEmpty (InitializeVM vm m l)"
  by (simp_all add: InitializeVM_def Let_def StackIsEmpty_def)

subsection \<open>Evaluating the rules on concrete states\<close>

lemmas run_defs =
  vm_state_def defined_def and_then_def set_status_def set_program_counter_def
  set_stack_pointer_def get_register_def set_register_def size_t_of_def int32_of_int_def
  StackIsEmpty_def StackIsFull_def GetAvailableStackSize_def GetOccupiedStackSize_def
  CanPerformMultipush_def CanPerformMultipop_def GetInstructionLength_def
  InstructionFitsInMemory_def advance_program_counter_def ReadByte_def ReadByteAtPC_def
  ReadWord_def ReadWordAtPC_def WriteWord_def PopVM_def PushVM_def IsValidRegisterIndex_def
  GetProgramCounter_def initial_opcode_map_def instructions_def N_REGISTERS_def
  opcode_defs register_defs Let_def

lemmas example_defs =
  push_pop_start_def push_pop_pushed_def push_pop_popped_def
  call_ret_start_def call_ret_called_def call_ret_returned_def

lemma replicate_zero_bytes:
  "replicate 5 (0 :: uint8_t) = [0, 0, 0, 0, 0]"
  "replicate 8 (0 :: uint8_t) = [0, 0, 0, 0, 0, 0, 0, 0]"
  "replicate 4 (0 :: int32_t) = [0, 0, 0, 0]"
  by (simp_all add: eval_nat_numeral)

subsection \<open>PUSH and POP\<close>

text \<open>
  C1, as the code behaves. When \<^verbatim>\<open>PUSH r\<close> executes and the \<^verbatim>\<open>POP r'\<close> after it
  executes, the stack pointer is back at its value before the \<^verbatim>\<open>PUSH\<close>, and the pushed
  value is the word at the stack pointer between the two instructions. But \<open>ExecutePop\<close>
  reads at \<^verbatim>\<open>stack_pointer + 4\<close>: the register \<open>r'\<close> receives the word that was at
  the stack pointer before the \<^verbatim>\<open>PUSH\<close>, the one above the pushed word, whatever was
  pushed. \<open>PopVM\<close> and \<open>ExecutePopAll\<close> read at the stack pointer itself.
\<close>

theorem pop_after_push_loads_word_above:
  assumes "length (registers (cpu vm)) = N_REGISTERS"
    and "ExecutePush vm = Return False vm1"
    and "ExecutePop vm1 = Return False vm2"
    and "ReadByteAtPC vm 1 = Some r"
    and "ReadByteAtPC vm1 1 = Some r'"
  shows "stack_pointer (cpu vm2) = stack_pointer (cpu vm) \<and>
         ReadWord vm1 (stack_pointer (cpu vm1)) = get_register vm r \<and>
         get_register vm2 r' = ReadWord vm (stack_pointer (cpu vm))"
proof -
  from assms(2,4) obtain a datum vmw vma where
    push: "IsValidRegisterIndex r"
      "int32_of_int (sint (stack_pointer (cpu vm)) - 4) = Some a"
      "get_register vm r = Some datum"
      "WriteWord vm a datum = Some vmw"
      "advance_program_counter PUSH (set_stack_pointer a vmw) = Some vma"
      "vm1 = vma"
    by (auto simp add: ExecutePush_def defined_def Let_def WriteWord_SomeD(4)
          split: option.splits if_splits)
  note w = WriteWord_SomeD [OF push(4)]
  have vm1: "memory vm1 = memory vmw" "stack_pointer (cpu vm1) = a"
    "registers (cpu vm1) = registers (cpu vm)"
    using push(5,6) w(4)
    by (auto simp add: advance_program_counter_def set_program_counter_def
          set_stack_pointer_def split: option.splits)
  from assms(3,5) obtain b datum' vmr vmb where
    pop: "IsValidRegisterIndex r'"
      "int32_of_int (sint (stack_pointer (cpu vm1)) + 4) = Some b"
      "ReadWord vm1 b = Some datum'"
      "set_register r' datum' vm1 = Some vmr"
      "advance_program_counter POP (set_stack_pointer b vmr) = Some vmb"
      "vm2 = vmb"
    by (auto simp add: ExecutePop_def defined_def Let_def set_register_def
          split: option.splits if_splits)
  have sa: "sint a = sint (stack_pointer (cpu vm)) - 4"
    using push(2) by (rule int32_of_int_SomeD)
  have "sint b = sint a + 4"
    using int32_of_int_SomeD(1) [OF pop(2)] vm1(2) by simp
  then have b: "b = stack_pointer (cpu vm)"
    using sa by (intro sint_eq_imp_eq) simp
  have vm2: "stack_pointer (cpu vm2) = b"
    "registers (cpu vm2) = (registers (cpu vm))[unat r' := datum']"
    using pop(4,5,6) vm1(3)
    by (auto simp add: advance_program_counter_def set_program_counter_def
          set_stack_pointer_def set_register_def split: option.splits if_splits)
  have "ReadWord vm1 a = ReadWord vmw a"
    using vm1(1) by (rule ReadWord_cong)
  also have "\<dots> = Some datum"
    using push(4) by (rule ReadWord_WriteWord)
  finally have top: "ReadWord vm1 (stack_pointer (cpu vm1)) = get_register vm r"
    by (simp add: vm1(2) push(3))
  have "ReadWord vm1 b = ReadWord vmw b"
    using vm1(1) by (rule ReadWord_cong)
  also have "\<dots> = ReadWord vm b"
    using push(4) by (rule ReadWord_WriteWord_other) (simp add: b sa)
  finally have "ReadWord vm (stack_pointer (cpu vm)) = Some datum'"
    using pop(3) b by simp
  moreover have "get_register vm2 r' = Some datum'"
    using pop(1) assms(1) by (simp add: get_register_def vm2(2) IsValidRegisterIndex_iff)
  ultimately show ?thesis
    using vm2(1) b top by simp
qed

text \<open>
  With 7 in the first register and the word 99 on the stack, \<^verbatim>\<open>PUSH REG1; POP REG2\<close>
  leaves 99 in the second register, not 7.
\<close>

theorem pop_after_push_loads_word_above_witness:
  "length (registers (cpu push_pop_start)) = N_REGISTERS \<and>
   ExecutePush push_pop_start = Return False push_pop_pushed \<and>
   ExecutePop push_pop_pushed = Return False push_pop_popped \<and>
   ReadByteAtPC push_pop_start 1 = Some REG1 \<and>
   ReadByteAtPC push_pop_pushed 1 = Some REG2 \<and>
   get_register push_pop_start REG1 = Some 7 \<and>
   get_register push_pop_popped REG2 = Some 99 \<and>
   stack_pointer (cpu push_pop_popped) = stack_pointer (cpu push_pop_start) \<and>
   ReadWord push_pop_pushed (stack_pointer (cpu push_pop_pushed))
     = get_register push_pop_start REG1 \<and>
   get_register push_pop_popped REG2
     = ReadWord push_pop_start (stack_pointer (cpu push_pop_start))"
proof -
  have h: "length (registers (cpu push_pop_start)) = N_REGISTERS"
    "ExecutePush push_pop_start = Return False push_pop_pushed"
    "ExecutePop push_pop_pushed = Return False push_pop_popped"
    "ReadByteAtPC push_pop_start 1 = Some REG1"
    "ReadByteAtPC push_pop_pushed 1 = Some REG2"
    by (simp_all add: ExecutePush_def ExecutePop_def example_defs run_defs)
  have v: "get_register push_pop_start REG1 = Some 7"
    "get_register push_pop_popped REG2 = Some 99"
    by (simp_all add: example_defs run_defs)
  from pop_after_push_loads_word_above [OF h] h v show ?thesis
    by (simp only: simp_thms)
qed

text \<open>The whole run of that program ends in the same state.\<close>

lemma RunVM_push_pop_example:
  "RunVM push_pop_start = Some (Return () push_pop_popped)"
  by (simp add: RunVM.simps RunVM_body_def instructions_execute_def ExecutePush_def
        ExecutePop_def ExecuteHalt_def example_defs run_defs)

text \<open>
  The same from a program file, as \<^verbatim>\<open>main\<close> loads and runs it. The program pushes 99,
  then pushes 7 and pops into the second register: the run ends with 99 there, and with
  the stack pointer one word below \<open>memory_size\<close>.
\<close>

lemma main_state_push_pop:
  "main_state push_pop_file =
     Some (vm_state
       [CONST_op, REG1, 99, 0, 0, 0, PUSH, REG1, CONST_op, REG1, 7, 0, 0, 0, PUSH, REG1,
        POP, REG2, HALT, 0, 0, 0, 0, 0, 0, 0, 0, 0, 0, 0, 0, 0, 0, 0, 0, 0, 0, 0, 0, 0]
       20 [0, 0, 0, 0] 0 40)"
proof -
  have r: "replicate 21 (0 :: uint8_t) = [0, 0, 0, 0, 0, 0, 0, 0, 0, 0, 0, 0, 0, 0, 0, 0, 0, 0, 0, 0, 0]"
    "replicate 4 (0 :: int32_t) = [0, 0, 0, 0]"
    by (simp_all add: eval_nat_numeral)
  show ?thesis
    by (simp add: main_state_def push_pop_file_def InitializeVM_def round_to_word_def
          size_t_of_def vm_state_def N_REGISTERS_def Let_def r)
qed

lemma RunVM_push_pop_file:
  "RunVM (vm_state
       [CONST_op, REG1, 99, 0, 0, 0, PUSH, REG1, CONST_op, REG1, 7, 0, 0, 0, PUSH, REG1,
        POP, REG2, HALT, 0, 0, 0, 0, 0, 0, 0, 0, 0, 0, 0, 0, 0, 0, 0, 0, 0, 0, 0, 0, 0]
       20 [0, 0, 0, 0] 0 40)
   = Some (Return () (vm_state
       [CONST_op, REG1, 99, 0, 0, 0, PUSH, REG1, CONST_op, REG1, 7, 0, 0, 0, PUSH, REG1,
        POP, REG2, HALT, 0, 0, 0, 0, 0, 0, 0, 0, 0, 0, 0, 0, 0, 7, 0, 0, 0, 99, 0, 0, 0]
       20 [7, 99, 0, 0] 18 36))"
  by (simp add: RunVM.simps RunVM_body_def instructions_execute_def ExecutePush_def
        ExecutePop_def ExecuteHalt_def ExecuteConst_def run_defs)


subsection \<open>WriteVMMemory\<close>

text \<open>
  C2. \<open>WriteVMMemory\<close> returns the machine it was given, unchanged in every field, the
  memory included, for every machine, buffer and size; what changes is the caller's
  buffer, whose first \<open>n\<close> bytes become the first \<open>n\<close> bytes of the machine's memory.
  The call is undefined when either buffer is shorter than \<open>n\<close>.
\<close>

theorem WriteVMMemory_copies_out:
  "WriteVMMemory vm mem n =
     (if n \<le> length mem \<and> n \<le> length (memory vm)
      then Some (vm, take n (memory vm) @ drop n mem) else None)"
  by (simp add: WriteVMMemory_def memcpy_eq)

theorem WriteVMMemory_copies_out_witness:
  "WriteVMMemory (vm_state [1, 2, 3, 4] 4 [0, 0, 0, 0] 0 4) [PUSH, REG1, HALT] 3
     = Some (vm_state [1, 2, 3, 4] 4 [0, 0, 0, 0] 0 4, [1, 2, 3])"
  using WriteVMMemory_copies_out [of "vm_state [1, 2, 3, 4] 4 [0, 0, 0, 0] 0 4" "[PUSH, REG1, HALT]" 3]
  by (simp add: vm_state_def)

subsection \<open>Invalid register indices\<close>

text \<open>
  C3, as the code behaves for \<^verbatim>\<open>RSTORE\<close>. When the instruction lies inside the
  memory and an operand byte of it is not a valid register index, \<open>ExecuteRstore\<close>
  returns the halt signal and sets \<open>BAD_ACCESS\<close>; \<open>INVALID_REGISTER_INDEX\<close> is left
  as it was. The other rules with a register operand set \<open>INVALID_REGISTER_INDEX\<close> in
  that branch.
\<close>

theorem rstore_invalid_register_sets_bad_access:
  assumes "opcode_map vm = initial_opcode_map"
    and "0 \<le> sint (program_counter (cpu vm))"
    and "sint (program_counter (cpu vm)) + 3 \<le> sint (memory_size vm)"
    and "sint (memory_size vm) \<le> int (length (memory vm))"
    and "\<not> IsValidRegisterIndex (memory vm ! nat (sint (program_counter (cpu vm)) + 1)) \<or>
         \<not> IsValidRegisterIndex (memory vm ! nat (sint (program_counter (cpu vm)) + 2))"
  shows "ExecuteRstore vm = Return True (set_status (\<lambda>s. s\<lparr>BAD_ACCESS := True\<rparr>) vm)"
proof -
  have len: "GetInstructionLength vm RSTORE = Some 3"
    using assms(1) by (rule GetInstructionLength_initial)
  have fits: "InstructionFitsInMemory vm RSTORE = Some True"
    using len _ assms(2) by (rule fits_intro) (use assms(3) in simp_all)
  have m: "sint (memory_size vm) < 2 ^ 31"
    by (rule sint32_bounds)
  have s: "ReadByteAtPC vm 1 = Some (memory vm ! nat (sint (program_counter (cpu vm)) + 1))"
    using assms(2,3,4) m by (intro ReadByteAtPC_eq) simp_all
  have t: "ReadByteAtPC vm 2 = Some (memory vm ! nat (sint (program_counter (cpu vm)) + 2))"
    using assms(2,3,4) m by (intro ReadByteAtPC_eq) simp_all
  show ?thesis
    using assms(5) by (auto simp add: ExecuteRstore_def defined_def fits s t)
qed

theorem rstore_invalid_register_sets_bad_access_witness:
  "opcode_map (vm_state [RSTORE, 4, REG1, HALT] 4 [0, 0, 0, 0] 0 4) = initial_opcode_map \<and>
   0 \<le> sint (program_counter (cpu (vm_state [RSTORE, 4, REG1, HALT] 4 [0, 0, 0, 0] 0 4))) \<and>
   sint (program_counter (cpu (vm_state [RSTORE, 4, REG1, HALT] 4 [0, 0, 0, 0] 0 4))) + 3
     \<le> sint (memory_size (vm_state [RSTORE, 4, REG1, HALT] 4 [0, 0, 0, 0] 0 4)) \<and>
   sint (memory_size (vm_state [RSTORE, 4, REG1, HALT] 4 [0, 0, 0, 0] 0 4))
     \<le> int (length (memory (vm_state [RSTORE, 4, REG1, HALT] 4 [0, 0, 0, 0] 0 4))) \<and>
   \<not> IsValidRegisterIndex (memory (vm_state [RSTORE, 4, REG1, HALT] 4 [0, 0, 0, 0] 0 4)
        ! nat (sint (program_counter (cpu (vm_state [RSTORE, 4, REG1, HALT] 4 [0, 0, 0, 0] 0 4))) + 1)) \<and>
   ExecuteRstore (vm_state [RSTORE, 4, REG1, HALT] 4 [0, 0, 0, 0] 0 4)
     = Return True (set_status (\<lambda>s. s\<lparr>BAD_ACCESS := True\<rparr>)
         (vm_state [RSTORE, 4, REG1, HALT] 4 [0, 0, 0, 0] 0 4)) \<and>
   \<not> INVALID_REGISTER_INDEX (status (cpu (set_status (\<lambda>s. s\<lparr>BAD_ACCESS := True\<rparr>)
         (vm_state [RSTORE, 4, REG1, HALT] 4 [0, 0, 0, 0] 0 4))))"
proof -
  let ?vm = "vm_state [RSTORE, 4, REG1, HALT] 4 [0, 0, 0, 0] 0 4"
  have h: "opcode_map ?vm = initial_opcode_map"
    "0 \<le> sint (program_counter (cpu ?vm))"
    "sint (program_counter (cpu ?vm)) + 3 \<le> sint (memory_size ?vm)"
    "sint (memory_size ?vm) \<le> int (length (memory ?vm))"
    by (simp_all add: vm_state_def)
  have i: "\<not> IsValidRegisterIndex (memory ?vm ! nat (sint (program_counter (cpu ?vm)) + 1))"
    by (simp add: vm_state_def IsValidRegisterIndex_def register_defs)
  then have d: "\<not> IsValidRegisterIndex (memory ?vm ! nat (sint (program_counter (cpu ?vm)) + 1)) \<or>
      \<not> IsValidRegisterIndex (memory ?vm ! nat (sint (program_counter (cpu ?vm)) + 2))"
    by (rule disjI1)
  have f: "\<not> INVALID_REGISTER_INDEX (status (cpu (set_status (\<lambda>s. s\<lparr>BAD_ACCESS := True\<rparr>) ?vm)))"
    by (simp add: vm_state_def set_status_def)
  from rstore_invalid_register_sets_bad_access [OF h d] h i f show ?thesis
    by (simp only: simp_thms)
qed

text \<open>
  The twelve other rules with a register operand: once the instruction fits and the
  operand is read, an invalid index sets \<open>INVALID_REGISTER_INDEX\<close> and returns the halt
  signal, with nothing else changed.
\<close>

lemma other_rules_reject_invalid_register:
  shows "InstructionFitsInMemory vm ADD = Some True \<Longrightarrow>
       ReadByteAtPC vm 1 = Some i \<Longrightarrow> ReadByteAtPC vm 2 = Some j \<Longrightarrow>
       \<not> IsValidRegisterIndex i \<or> \<not> IsValidRegisterIndex j \<Longrightarrow>
       ExecuteAdd vm = Return True (set_status (\<lambda>s. s\<lparr>INVALID_REGISTER_INDEX := True\<rparr>) vm)"
    and "InstructionFitsInMemory vm MUL = Some True \<Longrightarrow>
       ReadByteAtPC vm 1 = Some i \<Longrightarrow> ReadByteAtPC vm 2 = Some j \<Longrightarrow>
       \<not> IsValidRegisterIndex i \<or> \<not> IsValidRegisterIndex j \<Longrightarrow>
       ExecuteMul vm = Return True (set_status (\<lambda>s. s\<lparr>INVALID_REGISTER_INDEX := True\<rparr>) vm)"
    and "InstructionFitsInMemory vm DIV = Some True \<Longrightarrow>
       ReadByteAtPC vm 1 = Some i \<Longrightarrow> ReadByteAtPC vm 2 = Some j \<Longrightarrow>
       \<not> IsValidRegisterIndex i \<or> \<not> IsValidRegisterIndex j \<Longrightarrow>
       ExecuteDiv vm = Return True (set_status (\<lambda>s. s\<lparr>INVALID_REGISTER_INDEX := True\<rparr>) vm)"
    and "InstructionFitsInMemory vm MOD = Some True \<Longrightarrow>
       ReadByteAtPC vm 1 = Some i \<Longrightarrow> ReadByteAtPC vm 2 = Some j \<Longrightarrow>
       \<not> IsValidRegisterIndex i \<or> \<not> IsValidRegisterIndex j \<Longrightarrow>
       ExecuteMod vm = Return True (set_status (\<lambda>s. s\<lparr>INVALID_REGISTER_INDEX := True\<rparr>) vm)"
    and "InstructionFitsInMemory vm CMP = Some True \<Longrightarrow>
       ReadByteAtPC vm 1 = Some i \<Longrightarrow> ReadByteAtPC vm 2 = Some j \<Longrightarrow>
       \<not> IsValidRegisterIndex i \<or> \<not> IsValidRegisterIndex j \<Longrightarrow>
       ExecuteCmp vm = Return True (set_status (\<lambda>s. s\<lparr>INVALID_REGISTER_INDEX := True\<rparr>) vm)"
    and "InstructionFitsInMemory vm NEG = Some True \<Longrightarrow>
       ReadByteAtPC vm 1 = Some i \<Longrightarrow> \<not> IsValidRegisterIndex i \<Longrightarrow>
       ExecuteNeg vm = Return True (set_status (\<lambda>s. s\<lparr>INVALID_REGISTER_INDEX := True\<rparr>) vm)"
    and "InstructionFitsInMemory vm LOAD = Some True \<Longrightarrow>
       ReadByteAtPC vm 1 = Some i \<Longrightarrow> \<not> IsValidRegisterIndex i \<Longrightarrow>
       ExecuteLoad vm = Return True (set_status (\<lambda>s. s\<lparr>INVALID_REGISTER_INDEX := True\<rparr>) vm)"
    and "InstructionFitsInMemory vm STORE = Some True \<Longrightarrow>
       ReadByteAtPC vm 1 = Some i \<Longrightarrow> \<not> IsValidRegisterIndex i \<Longrightarrow>
       ExecuteStore vm = Return True (set_status (\<lambda>s. s\<lparr>INVALID_REGISTER_INDEX := True\<rparr>) vm)"
    and "InstructionFitsInMemory vm LSP = Some True \<Longrightarrow>
       ReadByteAtPC vm 1 = Some i \<Longrightarrow> \<not> IsValidRegisterIndex i \<Longrightarrow>
       ExecuteLSP vm = Return True (set_status (\<lambda>s. s\<lparr>INVALID_REGISTER_INDEX := True\<rparr>) vm)"
    and "InstructionFitsInMemory vm CONST_op = Some True \<Longrightarrow>
       ReadByteAtPC vm 1 = Some i \<Longrightarrow> ReadWordAtPC vm 2 = Some datum \<Longrightarrow>
       \<not> IsValidRegisterIndex i \<Longrightarrow>
       ExecuteConst vm = Return True (set_status (\<lambda>s. s\<lparr>INVALID_REGISTER_INDEX := True\<rparr>) vm)"
    and "InstructionFitsInMemory vm PUSH = Some True \<Longrightarrow> \<not> StackIsFull vm \<Longrightarrow>
       ReadByteAtPC vm 1 = Some i \<Longrightarrow> \<not> IsValidRegisterIndex i \<Longrightarrow>
       ExecutePush vm = Return True (set_status (\<lambda>s. s\<lparr>INVALID_REGISTER_INDEX := True\<rparr>) vm)"
    and "InstructionFitsInMemory vm POP = Some True \<Longrightarrow> \<not> StackIsEmpty vm \<Longrightarrow>
       ReadByteAtPC vm 1 = Some i \<Longrightarrow> \<not> IsValidRegisterIndex i \<Longrightarrow>
       ExecutePop vm = Return True (set_status (\<lambda>s. s\<lparr>INVALID_REGISTER_INDEX := True\<rparr>) vm)"
  by (auto simp add: defined_def ExecuteAdd_def ExecuteMul_def ExecuteDiv_def ExecuteMod_def ExecuteCmp_def ExecuteNeg_def ExecuteLoad_def ExecuteStore_def ExecuteLSP_def ExecuteConst_def ExecutePush_def ExecutePop_def)

text \<open>
  The program file \<^verbatim>\<open>RSTORE 4, REG1; HALT\<close>, as \<^verbatim>\<open>main\<close> loads and runs it: the run
  ends with \<open>BAD_ACCESS\<close> as the only fault flag.
\<close>

lemma main_rstore_invalid_register:
  "main_state [RSTORE, 4, REG1, HALT]
     = Some (vm_state [RSTORE, 4, REG1, HALT, 0, 0, 0, 0, 0, 0, 0, 0] 8 [0, 0, 0, 0] 0 12)"
  "RunVM (vm_state [RSTORE, 4, REG1, HALT, 0, 0, 0, 0, 0, 0, 0, 0] 8 [0, 0, 0, 0] 0 12)
     = Some (Return () (set_status (\<lambda>s. s\<lparr>BAD_ACCESS := True\<rparr>)
         (vm_state [RSTORE, 4, REG1, HALT, 0, 0, 0, 0, 0, 0, 0, 0] 8 [0, 0, 0, 0] 0 12)))"
  "fault_flags (set_status (\<lambda>s. s\<lparr>BAD_ACCESS := True\<rparr>)
         (vm_state [RSTORE, 4, REG1, HALT, 0, 0, 0, 0, 0, 0, 0, 0] 8 [0, 0, 0, 0] 0 12))
     = (False, False, False, False, True)"
proof -
  show "main_state [RSTORE, 4, REG1, HALT]
     = Some (vm_state [RSTORE, 4, REG1, HALT, 0, 0, 0, 0, 0, 0, 0, 0] 8 [0, 0, 0, 0] 0 12)"
    by (simp add: main_state_def InitializeVM_def round_to_word_def size_t_of_def vm_state_def
          N_REGISTERS_def Let_def replicate_zero_bytes)
  show "RunVM (vm_state [RSTORE, 4, REG1, HALT, 0, 0, 0, 0, 0, 0, 0, 0] 8 [0, 0, 0, 0] 0 12)
     = Some (Return () (set_status (\<lambda>s. s\<lparr>BAD_ACCESS := True\<rparr>)
         (vm_state [RSTORE, 4, REG1, HALT, 0, 0, 0, 0, 0, 0, 0, 0] 8 [0, 0, 0, 0] 0 12)))"
    by (simp add: RunVM.simps RunVM_body_def instructions_execute_def ExecuteRstore_def run_defs)
  show "fault_flags (set_status (\<lambda>s. s\<lparr>BAD_ACCESS := True\<rparr>)
         (vm_state [RSTORE, 4, REG1, HALT, 0, 0, 0, 0, 0, 0, 0, 0] 8 [0, 0, 0, 0] 0 12))
     = (False, False, False, False, True)"
    by (simp add: fault_flags_def vm_state_def set_status_def)
qed

subsection \<open>POP on an empty stack\<close>

text \<open>
  C4, as the code behaves for \<^verbatim>\<open>POP\<close>. When the instruction lies inside the memory
  and the stack is empty (the stack pointer is at or above \<open>memory_size\<close>),
  \<open>ExecutePop\<close> returns the halt signal and leaves the state as it was:
  \<open>STACK_UNDERFLOW\<close> is not set.
  \<open>ExecuteRet\<close>, \<open>ExecuteInterrupt\<close> and \<open>ExecutePopAll\<close> set the flag in that branch.
\<close>

theorem pop_on_empty_stack_sets_no_flag:
  assumes "opcode_map vm = initial_opcode_map"
    and "0 \<le> sint (program_counter (cpu vm))"
    and "sint (program_counter (cpu vm)) + 2 \<le> sint (memory_size vm)"
    and "sint (memory_size vm) \<le> sint (stack_pointer (cpu vm))"
  shows "ExecutePop vm = Return True vm"
proof -
  have len: "GetInstructionLength vm POP = Some 2"
    using assms(1) by (rule GetInstructionLength_initial)
  have "InstructionFitsInMemory vm POP = Some True"
    using len _ assms(2) by (rule fits_intro) (use assms(3) in simp_all)
  moreover have "StackIsEmpty vm"
    using assms(4) by (simp add: StackIsEmpty_def)
  ultimately show ?thesis
    by (simp add: ExecutePop_def defined_def)
qed

theorem pop_on_empty_stack_sets_no_flag_witness:
  "opcode_map (vm_state [POP, REG1, HALT, 0] 0 [0, 0, 0, 0] 0 4) = initial_opcode_map \<and>
   0 \<le> sint (program_counter (cpu (vm_state [POP, REG1, HALT, 0] 0 [0, 0, 0, 0] 0 4))) \<and>
   sint (program_counter (cpu (vm_state [POP, REG1, HALT, 0] 0 [0, 0, 0, 0] 0 4))) + 2
     \<le> sint (memory_size (vm_state [POP, REG1, HALT, 0] 0 [0, 0, 0, 0] 0 4)) \<and>
   sint (memory_size (vm_state [POP, REG1, HALT, 0] 0 [0, 0, 0, 0] 0 4))
     \<le> sint (stack_pointer (cpu (vm_state [POP, REG1, HALT, 0] 0 [0, 0, 0, 0] 0 4))) \<and>
   ExecutePop (vm_state [POP, REG1, HALT, 0] 0 [0, 0, 0, 0] 0 4)
     = Return True (vm_state [POP, REG1, HALT, 0] 0 [0, 0, 0, 0] 0 4) \<and>
   \<not> STACK_UNDERFLOW (status (cpu (vm_state [POP, REG1, HALT, 0] 0 [0, 0, 0, 0] 0 4)))"
proof -
  let ?vm = "vm_state [POP, REG1, HALT, 0] 0 [0, 0, 0, 0] 0 4"
  have h: "opcode_map ?vm = initial_opcode_map"
    "0 \<le> sint (program_counter (cpu ?vm))"
    "sint (program_counter (cpu ?vm)) + 2 \<le> sint (memory_size ?vm)"
    "sint (memory_size ?vm) \<le> sint (stack_pointer (cpu ?vm))"
    by (simp_all add: vm_state_def)
  have f: "\<not> STACK_UNDERFLOW (status (cpu ?vm))"
    by (simp add: vm_state_def)
  from pop_on_empty_stack_sets_no_flag [OF h] h f show ?thesis
    by (simp only: simp_thms)
qed

text \<open>The three other rules that take words from the stack set the flag.\<close>

lemma CanPerformMultipop_short:
  assumes "sint (stack_pointer (cpu vm)) \<le> sint (memory_size vm)"
    and "sint (memory_size vm) - sint (stack_pointer (cpu vm)) < 16"
  shows "CanPerformMultipop vm = Some False"
proof -
  have r: "- (2 ^ 31) \<le> sint (memory_size vm) - sint (stack_pointer (cpu vm))"
    "sint (memory_size vm) - sint (stack_pointer (cpu vm)) < 2 ^ 31"
    using assms by simp_all
  have "sint (word_of_int (sint (memory_size vm) - sint (stack_pointer (cpu vm))) :: int32_t)
      = sint (memory_size vm) - sint (stack_pointer (cpu vm))"
    using r by (rule sint_word_of_int32)
  then have "size_t_of (word_of_int (sint (memory_size vm) - sint (stack_pointer (cpu vm))))
      = sint (memory_size vm) - sint (stack_pointer (cpu vm))"
    using assms(1) by (simp add: size_t_of_eq)
  then show ?thesis
    using r assms(2)
    by (simp add: CanPerformMultipop_def GetOccupiedStackSize_def int32_of_int_def
          N_REGISTERS_def)
qed

lemma other_rules_flag_underflow:
  shows "InstructionFitsInMemory vm RET = Some True \<Longrightarrow> StackIsEmpty vm \<Longrightarrow>
       ExecuteRet vm = Return True (set_status (\<lambda>s. s\<lparr>STACK_UNDERFLOW := True\<rparr>) vm)"
    and "InstructionFitsInMemory vm INT_op = Some True \<Longrightarrow>
       ReadByteAtPC vm 1 = Some interrupt_number \<Longrightarrow> StackIsEmpty vm \<Longrightarrow>
       ExecuteInterrupt vm
         = Return True (set_status (\<lambda>s. s\<lparr>STACK_UNDERFLOW := True\<rparr>) vm)"
    and "InstructionFitsInMemory vm POP_ALL = Some True \<Longrightarrow>
       sint (stack_pointer (cpu vm)) \<le> sint (memory_size vm) \<Longrightarrow>
       sint (memory_size vm) - sint (stack_pointer (cpu vm)) < 16 \<Longrightarrow>
       ExecutePopAll vm
         = Return True (set_status (\<lambda>s. s\<lparr>STACK_UNDERFLOW := True\<rparr>) vm)"
  by (simp_all add: defined_def ExecuteRet_def ExecuteInterrupt_def ExecutePopAll_def
        CanPerformMultipop_short)

text \<open>
  The program file \<^verbatim>\<open>POP REG1; HALT\<close>, as \<^verbatim>\<open>main\<close> loads and runs it: the run ends
  at the \<^verbatim>\<open>POP\<close> with no fault flag set.
\<close>

lemma main_pop_on_empty_stack:
  "main_state [POP, REG1, HALT] = Some (vm_state [POP, REG1, HALT, 0, 0, 0, 0, 0] 4 [0, 0, 0, 0] 0 8)"
  "RunVM (vm_state [POP, REG1, HALT, 0, 0, 0, 0, 0] 4 [0, 0, 0, 0] 0 8)
     = Some (Return () (vm_state [POP, REG1, HALT, 0, 0, 0, 0, 0] 4 [0, 0, 0, 0] 0 8))"
  "fault_flags (vm_state [POP, REG1, HALT, 0, 0, 0, 0, 0] 4 [0, 0, 0, 0] 0 8)
     = (False, False, False, False, False)"
proof -
  show "main_state [POP, REG1, HALT] = Some (vm_state [POP, REG1, HALT, 0, 0, 0, 0, 0] 4 [0, 0, 0, 0] 0 8)"
    by (simp add: main_state_def InitializeVM_def round_to_word_def size_t_of_def vm_state_def
          N_REGISTERS_def Let_def replicate_zero_bytes)
  show "RunVM (vm_state [POP, REG1, HALT, 0, 0, 0, 0, 0] 4 [0, 0, 0, 0] 0 8)
     = Some (Return () (vm_state [POP, REG1, HALT, 0, 0, 0, 0, 0] 4 [0, 0, 0, 0] 0 8))"
    by (simp add: RunVM.simps RunVM_body_def instructions_execute_def ExecutePop_def run_defs)
  show "fault_flags (vm_state [POP, REG1, HALT, 0, 0, 0, 0, 0] 4 [0, 0, 0, 0] 0 8)
     = (False, False, False, False, False)"
    by (simp add: fault_flags_def vm_state_def)
qed

subsection \<open>A fault flag and the loop\<close>

lemma ExecuteRload_invalid:
  assumes "InstructionFitsInMemory vm RLOAD = Some True"
    and "ReadByteAtPC vm 1 = Some address_register_index"
    and "ReadByteAtPC vm 2 = Some data_register_index"
    and "\<not> IsValidRegisterIndex address_register_index \<or>
         \<not> IsValidRegisterIndex data_register_index"
  shows "ExecuteRload vm
           = Undefined (set_status (\<lambda>s. s\<lparr>INVALID_REGISTER_INDEX := True\<rparr>) vm)"
  using assms
  by (auto simp add: ExecuteRload_def defined_def IsValidRegisterIndex_iff
        get_register_def set_register_def Let_def split: option.splits)


text \<open>
  C5, as the code behaves for \<^verbatim>\<open>RLOAD\<close>. When the loop fetches an \<^verbatim>\<open>RLOAD\<close> with an
  operand byte that is not a valid register index, the rule sets
  \<open>INVALID_REGISTER_INDEX\<close> and does not return: with the flag set, it goes on to
  index the array of registers outside its bounds, which C leaves undefined, so the
  loop has not halted in the state with the flag set.
\<close>

theorem rload_invalid_register_does_not_halt:
  assumes "opcode_map vm = initial_opcode_map"
    and "0 \<le> sint (program_counter (cpu vm))"
    and "sint (program_counter (cpu vm)) + 3 \<le> sint (memory_size vm)"
    and "sint (memory_size vm) \<le> int (length (memory vm))"
    and "memory vm ! nat (sint (program_counter (cpu vm))) = RLOAD"
    and "\<not> IsValidRegisterIndex (memory vm ! nat (sint (program_counter (cpu vm)) + 1)) \<or>
         \<not> IsValidRegisterIndex (memory vm ! nat (sint (program_counter (cpu vm)) + 2))"
  shows "RunVM vm
           = Some (Undefined (set_status (\<lambda>s. s\<lparr>INVALID_REGISTER_INDEX := True\<rparr>) vm))"
proof -
  have len: "GetInstructionLength vm RLOAD = Some 3"
    using assms(1) by (rule GetInstructionLength_initial)
  have fits: "InstructionFitsInMemory vm RLOAD = Some True"
    using len _ assms(2) by (rule fits_intro) (use assms(3) in simp_all)
  have m: "sint (memory_size vm) < 2 ^ 31"
    by (rule sint32_bounds)
  have s: "ReadByteAtPC vm 1 = Some (memory vm ! nat (sint (program_counter (cpu vm)) + 1))"
    using assms(2,3,4) m by (intro ReadByteAtPC_eq) simp_all
  have t: "ReadByteAtPC vm 2 = Some (memory vm ! nat (sint (program_counter (cpu vm)) + 2))"
    using assms(2,3,4) m by (intro ReadByteAtPC_eq) simp_all
  have "RunVM_body vm = ExecuteRload vm"
    using assms(1-5)
    by (simp add: RunVM_body_def GetProgramCounter_def defined_def ReadByte_def
          initial_opcode_map_values instructions_execute_def)
  also have "\<dots> = Undefined (set_status (\<lambda>s. s\<lparr>INVALID_REGISTER_INDEX := True\<rparr>) vm)"
    using fits s t assms(6) by (rule ExecuteRload_invalid)
  finally show ?thesis
    by (subst RunVM.simps) simp
qed

theorem rload_invalid_register_does_not_halt_witness:
  "opcode_map (vm_state [RLOAD, 4, REG1, HALT] 0 [0, 0, 0, 0] 0 4) = initial_opcode_map \<and>
   0 \<le> sint (program_counter (cpu (vm_state [RLOAD, 4, REG1, HALT] 0 [0, 0, 0, 0] 0 4))) \<and>
   sint (program_counter (cpu (vm_state [RLOAD, 4, REG1, HALT] 0 [0, 0, 0, 0] 0 4))) + 3
     \<le> sint (memory_size (vm_state [RLOAD, 4, REG1, HALT] 0 [0, 0, 0, 0] 0 4)) \<and>
   sint (memory_size (vm_state [RLOAD, 4, REG1, HALT] 0 [0, 0, 0, 0] 0 4))
     \<le> int (length (memory (vm_state [RLOAD, 4, REG1, HALT] 0 [0, 0, 0, 0] 0 4))) \<and>
   memory (vm_state [RLOAD, 4, REG1, HALT] 0 [0, 0, 0, 0] 0 4)
     ! nat (sint (program_counter (cpu (vm_state [RLOAD, 4, REG1, HALT] 0 [0, 0, 0, 0] 0 4))))
     = RLOAD \<and>
   \<not> IsValidRegisterIndex (memory (vm_state [RLOAD, 4, REG1, HALT] 0 [0, 0, 0, 0] 0 4)
        ! nat (sint (program_counter (cpu (vm_state [RLOAD, 4, REG1, HALT] 0 [0, 0, 0, 0] 0 4))) + 1)) \<and>
   RunVM (vm_state [RLOAD, 4, REG1, HALT] 0 [0, 0, 0, 0] 0 4)
     = Some (Undefined (set_status (\<lambda>s. s\<lparr>INVALID_REGISTER_INDEX := True\<rparr>)
         (vm_state [RLOAD, 4, REG1, HALT] 0 [0, 0, 0, 0] 0 4))) \<and>
   INVALID_REGISTER_INDEX (status (cpu (set_status (\<lambda>s. s\<lparr>INVALID_REGISTER_INDEX := True\<rparr>)
         (vm_state [RLOAD, 4, REG1, HALT] 0 [0, 0, 0, 0] 0 4))))"
proof -
  let ?vm = "vm_state [RLOAD, 4, REG1, HALT] 0 [0, 0, 0, 0] 0 4"
  have h: "opcode_map ?vm = initial_opcode_map"
    "0 \<le> sint (program_counter (cpu ?vm))"
    "sint (program_counter (cpu ?vm)) + 3 \<le> sint (memory_size ?vm)"
    "sint (memory_size ?vm) \<le> int (length (memory ?vm))"
    "memory ?vm ! nat (sint (program_counter (cpu ?vm))) = RLOAD"
    by (simp_all add: vm_state_def)
  have i: "\<not> IsValidRegisterIndex (memory ?vm ! nat (sint (program_counter (cpu ?vm)) + 1))"
    by (simp add: vm_state_def IsValidRegisterIndex_def register_defs)
  then have d: "\<not> IsValidRegisterIndex (memory ?vm ! nat (sint (program_counter (cpu ?vm)) + 1)) \<or>
      \<not> IsValidRegisterIndex (memory ?vm ! nat (sint (program_counter (cpu ?vm)) + 2))"
    by (rule disjI1)
  have f: "INVALID_REGISTER_INDEX (status (cpu (set_status (\<lambda>s. s\<lparr>INVALID_REGISTER_INDEX := True\<rparr>) ?vm)))"
    by (simp add: set_status_def)
  from rload_invalid_register_does_not_halt [OF h d] h i f show ?thesis
    by (simp only: simp_thms)
qed

text \<open>
  On every other path the flags and the halt signal go together: a pass of the loop
  that returns to the loop leaves the five fault flags as they were.
\<close>

lemma fault_flags_simps:
  "fault_flags (set_program_counter v vm) = fault_flags vm"
  "fault_flags (set_stack_pointer v vm) = fault_flags vm"
  "fault_flags (vm\<lparr>stdout := out\<rparr>) = fault_flags vm"
  "fault_flags (set_status (\<lambda>s. s\<lparr>COMPARISON_ABOVE := a, COMPARISON_EQUAL := e,
      COMPARISON_BELOW := b\<rparr>) vm) = fault_flags vm"
  by (simp_all add: fault_flags_def set_program_counter_def set_stack_pointer_def set_status_def)

lemma fault_flags_steps:
  "set_register i v vm = Some vm' \<Longrightarrow> fault_flags vm' = fault_flags vm"
  "WriteWord vm a v = Some vm' \<Longrightarrow> fault_flags vm' = fault_flags vm"
  "advance_program_counter opcode vm = Some vm' \<Longrightarrow> fault_flags vm' = fault_flags vm"
  "PrintString vm a = Some vm' \<Longrightarrow> fault_flags vm' = fault_flags vm"
  by (auto simp add: fault_flags_def set_register_def WriteWord_def Let_def
        advance_program_counter_def set_program_counter_def PrintString_def
        split: if_splits option.splits)

lemma fault_flags_calls:
  "\<not> StackIsEmpty vm \<Longrightarrow> PopVM vm = Return w vm' \<Longrightarrow> fault_flags vm' = fault_flags vm"
  "PushVM vm v = Return u vm' \<Longrightarrow> fault_flags vm' = fault_flags vm"
  "push_register i vm = Return u vm' \<Longrightarrow> fault_flags vm' = fault_flags vm"
  "pop_register i k vm = Return u vm' \<Longrightarrow> fault_flags vm' = fault_flags vm"
  by (auto simp add: PopVM_def PushVM_def push_register_def pop_register_def defined_def
        Let_def fault_flags_simps
        dest!: fault_flags_steps split: if_splits option.splits)

lemma arithmetic_rules_keep_fault_flags:
  "ExecuteAdd vm = Return False vm' \<Longrightarrow> fault_flags vm' = fault_flags vm"
  "ExecuteNeg vm = Return False vm' \<Longrightarrow> fault_flags vm' = fault_flags vm"
  "ExecuteMul vm = Return False vm' \<Longrightarrow> fault_flags vm' = fault_flags vm"
  "ExecuteDiv vm = Return False vm' \<Longrightarrow> fault_flags vm' = fault_flags vm"
  "ExecuteMod vm = Return False vm' \<Longrightarrow> fault_flags vm' = fault_flags vm"
  by (auto simp add: ExecuteAdd_def ExecuteNeg_def ExecuteMul_def ExecuteDiv_def ExecuteMod_def
        defined_def dest!: fault_flags_steps split: if_splits option.splits)


lemma jump_rules_keep_fault_flags:
  "ExecuteCmp vm = Return False vm' \<Longrightarrow> fault_flags vm' = fault_flags vm"
  "ExecuteJumpIfAbove vm = Return False vm' \<Longrightarrow> fault_flags vm' = fault_flags vm"
  "ExecuteJumpIfEqual vm = Return False vm' \<Longrightarrow> fault_flags vm' = fault_flags vm"
  "ExecuteJumpIfBelow vm = Return False vm' \<Longrightarrow> fault_flags vm' = fault_flags vm"
  "ExecuteJump vm = Return False vm' \<Longrightarrow> fault_flags vm' = fault_flags vm"
  by (auto simp add: ExecuteCmp_def ExecuteJumpIfAbove_def ExecuteJumpIfEqual_def
        ExecuteJumpIfBelow_def ExecuteJump_def defined_def Let_def fault_flags_simps
        dest!: fault_flags_steps split: if_splits option.splits)

lemma subroutine_rules_keep_fault_flags:
  "ExecuteCall vm = Return False vm' \<Longrightarrow> fault_flags vm' = fault_flags vm"
  "ExecuteRet vm = Return False vm' \<Longrightarrow> fault_flags vm' = fault_flags vm"
  by (auto simp add: ExecuteCall_def ExecuteRet_def defined_def and_then_def fault_flags_simps
        dest!: fault_flags_calls split: if_splits option.splits result.splits)

lemma data_rules_keep_fault_flags:
  "ExecuteLoad vm = Return False vm' \<Longrightarrow> fault_flags vm' = fault_flags vm"
  "ExecuteStore vm = Return False vm' \<Longrightarrow> fault_flags vm' = fault_flags vm"
  "ExecuteConst vm = Return False vm' \<Longrightarrow> fault_flags vm' = fault_flags vm"
  "ExecuteRstore vm = Return False vm' \<Longrightarrow> fault_flags vm' = fault_flags vm"
  by (auto simp add: ExecuteLoad_def ExecuteStore_def ExecuteConst_def ExecuteRstore_def
        defined_def dest!: fault_flags_steps split: if_splits option.splits)

lemma rload_rule_keep_fault_flags:
  "ExecuteRload vm = Return False vm' \<Longrightarrow> fault_flags vm' = fault_flags vm"
  by (auto simp add: ExecuteRload_def defined_def Let_def IsValidRegisterIndex_iff
        get_register_def set_register_def ReadWord_def advance_program_counter_def
        set_program_counter_def fault_flags_def
        split: if_splits option.splits)

lemma auxiliary_rules_keep_fault_flags:
  "ExecuteInterrupt vm = Return False vm' \<Longrightarrow> fault_flags vm' = fault_flags vm"
  "ExecuteNop vm = Return False vm' \<Longrightarrow> fault_flags vm' = fault_flags vm"
  "ExecuteHalt vm = Return False vm' \<Longrightarrow> fault_flags vm' = fault_flags vm"
  by (auto simp add: ExecuteInterrupt_def ExecuteNop_def ExecuteHalt_def defined_def
        and_then_def Let_def fault_flags_simps
        dest!: fault_flags_steps fault_flags_calls split: if_splits option.splits result.splits)

lemma stack_rules_keep_fault_flags:
  "ExecutePush vm = Return False vm' \<Longrightarrow> fault_flags vm' = fault_flags vm"
  "ExecutePushAll vm = Return False vm' \<Longrightarrow> fault_flags vm' = fault_flags vm"
  "ExecutePop vm = Return False vm' \<Longrightarrow> fault_flags vm' = fault_flags vm"
  "ExecutePopAll vm = Return False vm' \<Longrightarrow> fault_flags vm' = fault_flags vm"
  "ExecuteLSP vm = Return False vm' \<Longrightarrow> fault_flags vm' = fault_flags vm"
  by (auto simp add: ExecutePush_def ExecutePushAll_def ExecutePop_def ExecutePopAll_def
        ExecuteLSP_def defined_def and_then_def Let_def fault_flags_simps
        dest!: fault_flags_steps fault_flags_calls split: if_splits option.splits result.splits)

lemma continuing_pass_keeps_fault_flags:
  assumes "RunVM_body vm = Return False vm'"
  shows "fault_flags vm' = fault_flags vm"
proof -
  from assms obtain index opcode_exec where
    e: "index < length instructions_execute" "instructions_execute ! index = Some opcode_exec"
       "opcode_exec vm = Return False vm'"
    by (auto simp add: RunVM_body_def defined_def Let_def split: if_splits option.splits)
  from e(1,2) have "Some opcode_exec \<in> set instructions_execute"
    by (metis nth_mem)
  then show ?thesis
    using e(3)
    by (auto simp add: instructions_execute_def arithmetic_rules_keep_fault_flags jump_rules_keep_fault_flags subroutine_rules_keep_fault_flags
          data_rules_keep_fault_flags rload_rule_keep_fault_flags auxiliary_rules_keep_fault_flags stack_rules_keep_fault_flags)
qed

text \<open>The program file \<^verbatim>\<open>RLOAD 4, REG1; HALT\<close>, as \<^verbatim>\<open>main\<close> loads and runs it.\<close>

lemma main_rload_invalid_register:
  "main_state [RLOAD, 4, REG1, HALT]
     = Some (vm_state [RLOAD, 4, REG1, HALT, 0, 0, 0, 0, 0, 0, 0, 0] 8 [0, 0, 0, 0] 0 12)"
  "RunVM (vm_state [RLOAD, 4, REG1, HALT, 0, 0, 0, 0, 0, 0, 0, 0] 8 [0, 0, 0, 0] 0 12)
     = Some (Undefined (set_status (\<lambda>s. s\<lparr>INVALID_REGISTER_INDEX := True\<rparr>)
         (vm_state [RLOAD, 4, REG1, HALT, 0, 0, 0, 0, 0, 0, 0, 0] 8 [0, 0, 0, 0] 0 12)))"
proof -
  show "main_state [RLOAD, 4, REG1, HALT]
     = Some (vm_state [RLOAD, 4, REG1, HALT, 0, 0, 0, 0, 0, 0, 0, 0] 8 [0, 0, 0, 0] 0 12)"
    by (simp add: main_state_def InitializeVM_def round_to_word_def size_t_of_def vm_state_def
          N_REGISTERS_def Let_def replicate_zero_bytes)
  show "RunVM (vm_state [RLOAD, 4, REG1, HALT, 0, 0, 0, 0, 0, 0, 0, 0] 8 [0, 0, 0, 0] 0 12)
     = Some (Undefined (set_status (\<lambda>s. s\<lparr>INVALID_REGISTER_INDEX := True\<rparr>)
         (vm_state [RLOAD, 4, REG1, HALT, 0, 0, 0, 0, 0, 0, 0, 0] 8 [0, 0, 0, 0] 0 12)))"
    by (simp add: RunVM.simps RunVM_body_def instructions_execute_def ExecuteRload_def run_defs)
qed

subsection \<open>RSTORE and the program counter\<close>

text \<open>
  What \<open>ExecuteRstore\<close> has done when it returns the signal to continue: the
  instruction fits, both operand bytes are register indices, and the word of the source
  register is written at the address held by the address register.
\<close>

lemma ReadByteAtPC_SomeD:
  assumes "ReadByteAtPC vm k = Some b"
    and "0 \<le> sint (program_counter (cpu vm)) + k"
  shows "b = memory vm ! nat (sint (program_counter (cpu vm)) + k)"
    and "sint (program_counter (cpu vm)) + k < int (length (memory vm))"
    and "sint (program_counter (cpu vm)) + k < 2 ^ 31"
proof -
  obtain a where a: "int32_of_int (sint (program_counter (cpu vm)) + k) = Some a"
    and r: "ReadByte vm (size_t_of a) = Some b"
    using assms(1) by (auto simp add: ReadByteAtPC_def split: option.splits)
  note d = int32_of_int_SomeD [OF a]
  have s: "size_t_of a = sint (program_counter (cpu vm)) + k"
    using d(1) assms(2) by (simp add: size_t_of_eq)
  from r show "b = memory vm ! nat (sint (program_counter (cpu vm)) + k)"
    and "sint (program_counter (cpu vm)) + k < int (length (memory vm))"
    unfolding s by (simp_all add: ReadByte_def split: if_splits)
  from d(3) show "sint (program_counter (cpu vm)) + k < 2 ^ 31" .
qed

lemma ExecuteRstore_continues:
  assumes "ExecuteRstore vm = Return False vm'"
  obtains source_register_index address_register_index where
    "InstructionFitsInMemory vm RSTORE = Some True"
    "ReadByteAtPC vm 1 = Some source_register_index"
    "ReadByteAtPC vm 2 = Some address_register_index"
    "IsValidRegisterIndex source_register_index"
    "IsValidRegisterIndex address_register_index"
    "WriteWord vm (registers (cpu vm) ! unat address_register_index)
       (registers (cpu vm) ! unat source_register_index) = Some vm'"
  using assms
  by (auto simp add: ExecuteRstore_def defined_def get_register_def
        split: option.splits if_splits)

lemma RunVM_fixed_state:
  assumes "RunVM_body vm = Return False vm"
  shows "RunVM vm = None"
proof (rule ccontr)
  assume "RunVM vm \<noteq> None"
  then obtain r where r: "RunVM vm = Some r" by auto
  have "vm \<noteq> vm"
  proof (rule RunVM.raw_induct [where P = "\<lambda>x r. x \<noteq> vm", OF _ r])
    fix run x r
    assume ih: "\<And>x y. run x = Some y \<Longrightarrow> x \<noteq> vm"
      and step: "(case RunVM_body x of
                    Undefined vm' \<Rightarrow> Some (Undefined vm')
                  | Return stop vm' \<Rightarrow> if stop then Some (Return () vm') else run vm') = Some r"
    show "x \<noteq> vm"
    proof
      assume "x = vm"
      with step assms have "run vm = Some r" by simp
      then show False using ih by blast
    qed
  qed
  then show False by simp
qed

lemma RunVM_body_RSTORE:
  assumes "opcode_map vm = initial_opcode_map"
    and "0 \<le> sint (program_counter (cpu vm))"
    and "sint (program_counter (cpu vm)) < sint (memory_size vm)"
    and "sint (program_counter (cpu vm)) < int (length (memory vm))"
    and "memory vm ! nat (sint (program_counter (cpu vm))) = RSTORE"
  shows "RunVM_body vm = ExecuteRstore vm"
  using assms
  by (simp add: RunVM_body_def GetProgramCounter_def defined_def ReadByte_def
        initial_opcode_map_values instructions_execute_def)

lemma ExecuteRstore_success:
  assumes "opcode_map vm = initial_opcode_map"
    and "0 \<le> sint (program_counter (cpu vm))"
    and "sint (program_counter (cpu vm)) + 3 \<le> sint (memory_size vm)"
    and "sint (program_counter (cpu vm)) + 2 < int (length (memory vm))"
    and "IsValidRegisterIndex (memory vm ! nat (sint (program_counter (cpu vm)) + 1))"
    and "IsValidRegisterIndex (memory vm ! nat (sint (program_counter (cpu vm)) + 2))"
    and "WriteWord vm
           (registers (cpu vm) ! unat (memory vm ! nat (sint (program_counter (cpu vm)) + 2)))
           (registers (cpu vm) ! unat (memory vm ! nat (sint (program_counter (cpu vm)) + 1)))
         = Some vm'"
  shows "ExecuteRstore vm = Return False vm'"
proof -
  have len: "GetInstructionLength vm RSTORE = Some 3"
    using assms(1) by (rule GetInstructionLength_initial)
  have fits: "InstructionFitsInMemory vm RSTORE = Some True"
    using len _ assms(2) by (rule fits_intro) (use assms(3) in simp_all)
  have m: "sint (memory_size vm) < 2 ^ 31"
    by (rule sint32_bounds)
  have s: "ReadByteAtPC vm 1 = Some (memory vm ! nat (sint (program_counter (cpu vm)) + 1))"
    using assms(2,3,4) m by (intro ReadByteAtPC_eq) simp_all
  have t: "ReadByteAtPC vm 2 = Some (memory vm ! nat (sint (program_counter (cpu vm)) + 2))"
    using assms(2,3,4) m by (intro ReadByteAtPC_eq) simp_all
  show ?thesis
    using assms(5,6,7)
    by (simp add: ExecuteRstore_def defined_def fits s t get_register_def
          IsValidRegisterIndex_iff)
qed

text \<open>
  A pass of the loop that leaves the state as it found it is repeated forever. After a
  successful \<^verbatim>\<open>RSTORE\<close> the program counter still points at the instruction, and the
  registers still hold the same address and word: when the three bytes of the instruction
  are as they were, the next pass executes the same \<^verbatim>\<open>RSTORE\<close>, which stores the same
  word at the same place, and so does every pass after it.
\<close>

lemma rstore_repeats:
  assumes "ExecuteRstore vm = Return False vm'"
    and "opcode_map vm = initial_opcode_map"
    and "0 \<le> sint (program_counter (cpu vm))"
    and "sint (program_counter (cpu vm)) < sint (memory_size vm)"
    and "memory vm ! nat (sint (program_counter (cpu vm))) = RSTORE"
    and "memory vm' ! nat (sint (program_counter (cpu vm)))
           = memory vm ! nat (sint (program_counter (cpu vm)))"
    and "memory vm' ! nat (sint (program_counter (cpu vm)) + 1)
           = memory vm ! nat (sint (program_counter (cpu vm)) + 1)"
    and "memory vm' ! nat (sint (program_counter (cpu vm)) + 2)
           = memory vm ! nat (sint (program_counter (cpu vm)) + 2)"
  shows "RunVM_body vm = Return False vm'"
    and "RunVM_body vm' = Return False vm'"
    and "RunVM vm = None"
proof -
  from assms(1) obtain s a where e:
    "InstructionFitsInMemory vm RSTORE = Some True"
    "ReadByteAtPC vm 1 = Some s" "ReadByteAtPC vm 2 = Some a"
    "IsValidRegisterIndex s" "IsValidRegisterIndex a"
    "WriteWord vm (registers (cpu vm) ! unat a) (registers (cpu vm) ! unat s) = Some vm'"
    by (rule ExecuteRstore_continues)
  note d = WriteWord_SomeD [OF e(6)]
  have s: "s = memory vm ! nat (sint (program_counter (cpu vm)) + 1)"
    using e(2) assms(3) by (intro ReadByteAtPC_SomeD(1)) simp_all
  have a: "a = memory vm ! nat (sint (program_counter (cpu vm)) + 2)"
    "sint (program_counter (cpu vm)) + 2 < int (length (memory vm))"
    using e(3) assms(3) by (intro ReadByteAtPC_SomeD(1,2); simp)+
  have len: "GetInstructionLength vm RSTORE = Some 3"
    using assms(2) by (rule GetInstructionLength_initial)
  have m: "0 \<le> sint (memory_size vm)"
    using assms(3,4) by simp
  have f: "sint (program_counter (cpu vm)) + 3 \<le> sint (memory_size vm)"
    using fits_imp [OF e(1) len _ m assms(3)] by simp
  show first: "RunVM_body vm = Return False vm'"
  proof -
    have "RunVM_body vm = ExecuteRstore vm"
      using assms(2,3,4) _ assms(5) by (rule RunVM_body_RSTORE) (use a(2) in simp)
    with assms(1) show ?thesis by simp
  qed
  show again: "RunVM_body vm' = Return False vm'"
  proof -
    have "RunVM_body vm' = ExecuteRstore vm'"
      using assms(2,3,4,5,6) a(2) by (intro RunVM_body_RSTORE) (simp_all add: d)
    also have "\<dots> = Return False vm'"
      using assms(2,3,7,8) f a(2) e(4,5) WriteWord_again [OF e(6)]
      by (intro ExecuteRstore_success) (simp_all add: d s a(1))
    finally show ?thesis .
  qed
  have "RunVM vm = RunVM vm'"
    using first by (subst RunVM.simps) simp
  also have "\<dots> = None"
    using again by (rule RunVM_fixed_state)
  finally show "RunVM vm = None" .
qed

text \<open>
  C6, as the code behaves. When \<open>ExecuteRstore\<close> returns the signal to continue, the
  program counter is the one it was given: only the memory differs between the two
  states. When moreover the state is one the loop of \<open>RunVM\<close> dispatches to this rule
  (the opcode map of \<open>InitializeVM\<close>, \<open>0 \<le> program_counter < memory_size\<close>, the
  opcode of \<^verbatim>\<open>RSTORE\<close> at the program counter) and the store has left the three bytes of
  the instruction as they were, the loop executes the same instruction on every pass:
  each pass ends in the same state with the signal to continue, and \<open>RunVM\<close> does not
  return.
\<close>

theorem rstore_repeats_unless_overwritten:
  assumes "ExecuteRstore vm = Return False vm'"
  shows "program_counter (cpu vm') = program_counter (cpu vm) \<and>
         vm' = vm\<lparr>memory := memory vm'\<rparr> \<and>
         (opcode_map vm = initial_opcode_map \<and>
          0 \<le> sint (program_counter (cpu vm)) \<and>
          sint (program_counter (cpu vm)) < sint (memory_size vm) \<and>
          memory vm ! nat (sint (program_counter (cpu vm))) = RSTORE \<and>
          memory vm' ! nat (sint (program_counter (cpu vm)))
            = memory vm ! nat (sint (program_counter (cpu vm))) \<and>
          memory vm' ! nat (sint (program_counter (cpu vm)) + 1)
            = memory vm ! nat (sint (program_counter (cpu vm)) + 1) \<and>
          memory vm' ! nat (sint (program_counter (cpu vm)) + 2)
            = memory vm ! nat (sint (program_counter (cpu vm)) + 2)
          \<longrightarrow> RunVM_body vm = Return False vm' \<and>
              RunVM_body vm' = Return False vm' \<and>
              RunVM vm = None)"
proof (intro conjI impI)
  show "program_counter (cpu vm') = program_counter (cpu vm)"
    using assms
    by (auto simp add: ExecuteRstore_def defined_def WriteWord_def Let_def
          split: option.splits if_splits)
  show "vm' = vm\<lparr>memory := memory vm'\<rparr>"
    using assms
    by (auto simp add: ExecuteRstore_def defined_def WriteWord_def Let_def
          split: option.splits if_splits)
next
  assume h: "opcode_map vm = initial_opcode_map \<and>
          0 \<le> sint (program_counter (cpu vm)) \<and>
          sint (program_counter (cpu vm)) < sint (memory_size vm) \<and>
          memory vm ! nat (sint (program_counter (cpu vm))) = RSTORE \<and>
          memory vm' ! nat (sint (program_counter (cpu vm)))
            = memory vm ! nat (sint (program_counter (cpu vm))) \<and>
          memory vm' ! nat (sint (program_counter (cpu vm)) + 1)
            = memory vm ! nat (sint (program_counter (cpu vm)) + 1) \<and>
          memory vm' ! nat (sint (program_counter (cpu vm)) + 2)
            = memory vm ! nat (sint (program_counter (cpu vm)) + 2)"
  then have k: "opcode_map vm = initial_opcode_map"
    "0 \<le> sint (program_counter (cpu vm))"
    "sint (program_counter (cpu vm)) < sint (memory_size vm)"
    "memory vm ! nat (sint (program_counter (cpu vm))) = RSTORE"
    "memory vm' ! nat (sint (program_counter (cpu vm)))
       = memory vm ! nat (sint (program_counter (cpu vm)))"
    "memory vm' ! nat (sint (program_counter (cpu vm)) + 1)
       = memory vm ! nat (sint (program_counter (cpu vm)) + 1)"
    "memory vm' ! nat (sint (program_counter (cpu vm)) + 2)
       = memory vm ! nat (sint (program_counter (cpu vm)) + 2)"
    by simp_all
  show "RunVM_body vm = Return False vm'"
    using assms k by (rule rstore_repeats(1))
  show "RunVM_body vm' = Return False vm'"
    using assms k by (rule rstore_repeats(2))
  show "RunVM vm = None"
    using assms k by (rule rstore_repeats(3))
qed

theorem rstore_repeats_unless_overwritten_witness:
  "ExecuteRstore (vm_state [RSTORE, REG1, REG2, HALT, 0, 0, 0, 0] 8 [7, 4, 0, 0] 0 8)
     = Return False (vm_state [RSTORE, REG1, REG2, HALT, 7, 0, 0, 0] 8 [7, 4, 0, 0] 0 8) \<and>
   opcode_map (vm_state [RSTORE, REG1, REG2, HALT, 0, 0, 0, 0] 8 [7, 4, 0, 0] 0 8)
     = initial_opcode_map \<and>
   0 \<le> sint (program_counter (cpu
         (vm_state [RSTORE, REG1, REG2, HALT, 0, 0, 0, 0] 8 [7, 4, 0, 0] 0 8))) \<and>
   sint (program_counter (cpu
         (vm_state [RSTORE, REG1, REG2, HALT, 0, 0, 0, 0] 8 [7, 4, 0, 0] 0 8)))
     < sint (memory_size (vm_state [RSTORE, REG1, REG2, HALT, 0, 0, 0, 0] 8 [7, 4, 0, 0] 0 8)) \<and>
   memory (vm_state [RSTORE, REG1, REG2, HALT, 0, 0, 0, 0] 8 [7, 4, 0, 0] 0 8)
     ! nat (sint (program_counter (cpu
       (vm_state [RSTORE, REG1, REG2, HALT, 0, 0, 0, 0] 8 [7, 4, 0, 0] 0 8))))
     = RSTORE \<and>
   memory (vm_state [RSTORE, REG1, REG2, HALT, 7, 0, 0, 0] 8 [7, 4, 0, 0] 0 8)
     ! nat (sint (program_counter (cpu
       (vm_state [RSTORE, REG1, REG2, HALT, 0, 0, 0, 0] 8 [7, 4, 0, 0] 0 8))))
     = memory (vm_state [RSTORE, REG1, REG2, HALT, 0, 0, 0, 0] 8 [7, 4, 0, 0] 0 8)
       ! nat (sint (program_counter (cpu
       (vm_state [RSTORE, REG1, REG2, HALT, 0, 0, 0, 0] 8 [7, 4, 0, 0] 0 8)))) \<and>
   memory (vm_state [RSTORE, REG1, REG2, HALT, 7, 0, 0, 0] 8 [7, 4, 0, 0] 0 8)
     ! nat (sint (program_counter (cpu
       (vm_state [RSTORE, REG1, REG2, HALT, 0, 0, 0, 0] 8 [7, 4, 0, 0] 0 8))) + 1)
     = memory (vm_state [RSTORE, REG1, REG2, HALT, 0, 0, 0, 0] 8 [7, 4, 0, 0] 0 8)
       ! nat (sint (program_counter (cpu
       (vm_state [RSTORE, REG1, REG2, HALT, 0, 0, 0, 0] 8 [7, 4, 0, 0] 0 8))) + 1) \<and>
   memory (vm_state [RSTORE, REG1, REG2, HALT, 7, 0, 0, 0] 8 [7, 4, 0, 0] 0 8)
     ! nat (sint (program_counter (cpu
       (vm_state [RSTORE, REG1, REG2, HALT, 0, 0, 0, 0] 8 [7, 4, 0, 0] 0 8))) + 2)
     = memory (vm_state [RSTORE, REG1, REG2, HALT, 0, 0, 0, 0] 8 [7, 4, 0, 0] 0 8)
       ! nat (sint (program_counter (cpu
       (vm_state [RSTORE, REG1, REG2, HALT, 0, 0, 0, 0] 8 [7, 4, 0, 0] 0 8))) + 2) \<and>
   program_counter (cpu (vm_state [RSTORE, REG1, REG2, HALT, 7, 0, 0, 0] 8 [7, 4, 0, 0] 0 8))
     = program_counter (cpu (vm_state [RSTORE, REG1, REG2, HALT, 0, 0, 0, 0] 8 [7, 4, 0, 0] 0 8)) \<and>
   RunVM_body (vm_state [RSTORE, REG1, REG2, HALT, 0, 0, 0, 0] 8 [7, 4, 0, 0] 0 8)
     = Return False (vm_state [RSTORE, REG1, REG2, HALT, 7, 0, 0, 0] 8 [7, 4, 0, 0] 0 8) \<and>
   RunVM_body (vm_state [RSTORE, REG1, REG2, HALT, 7, 0, 0, 0] 8 [7, 4, 0, 0] 0 8)
     = Return False (vm_state [RSTORE, REG1, REG2, HALT, 7, 0, 0, 0] 8 [7, 4, 0, 0] 0 8) \<and>
   RunVM (vm_state [RSTORE, REG1, REG2, HALT, 0, 0, 0, 0] 8 [7, 4, 0, 0] 0 8) = None"
proof -
  have h: "ExecuteRstore (vm_state [RSTORE, REG1, REG2, HALT, 0, 0, 0, 0] 8 [7, 4, 0, 0] 0 8)
       = Return False (vm_state [RSTORE, REG1, REG2, HALT, 7, 0, 0, 0] 8 [7, 4, 0, 0] 0 8)"
    by (simp add: ExecuteRstore_def run_defs)
  have k: "opcode_map (vm_state [RSTORE, REG1, REG2, HALT, 0, 0, 0, 0] 8 [7, 4, 0, 0] 0 8)
        = initial_opcode_map"
    "0 \<le> sint (program_counter (cpu
            (vm_state [RSTORE, REG1, REG2, HALT, 0, 0, 0, 0] 8 [7, 4, 0, 0] 0 8)))"
    "sint (program_counter (cpu
            (vm_state [RSTORE, REG1, REG2, HALT, 0, 0, 0, 0] 8 [7, 4, 0, 0] 0 8)))
        < sint (memory_size (vm_state [RSTORE, REG1, REG2, HALT, 0, 0, 0, 0] 8 [7, 4, 0, 0] 0 8))"
    "memory (vm_state [RSTORE, REG1, REG2, HALT, 0, 0, 0, 0] 8 [7, 4, 0, 0] 0 8)
        ! nat (sint (program_counter (cpu
          (vm_state [RSTORE, REG1, REG2, HALT, 0, 0, 0, 0] 8 [7, 4, 0, 0] 0 8))))
        = RSTORE"
    "memory (vm_state [RSTORE, REG1, REG2, HALT, 7, 0, 0, 0] 8 [7, 4, 0, 0] 0 8)
        ! nat (sint (program_counter (cpu
          (vm_state [RSTORE, REG1, REG2, HALT, 0, 0, 0, 0] 8 [7, 4, 0, 0] 0 8))))
        = memory (vm_state [RSTORE, REG1, REG2, HALT, 0, 0, 0, 0] 8 [7, 4, 0, 0] 0 8)
          ! nat (sint (program_counter (cpu
          (vm_state [RSTORE, REG1, REG2, HALT, 0, 0, 0, 0] 8 [7, 4, 0, 0] 0 8))))"
    "memory (vm_state [RSTORE, REG1, REG2, HALT, 7, 0, 0, 0] 8 [7, 4, 0, 0] 0 8)
        ! nat (sint (program_counter (cpu
          (vm_state [RSTORE, REG1, REG2, HALT, 0, 0, 0, 0] 8 [7, 4, 0, 0] 0 8))) + 1)
        = memory (vm_state [RSTORE, REG1, REG2, HALT, 0, 0, 0, 0] 8 [7, 4, 0, 0] 0 8)
          ! nat (sint (program_counter (cpu
          (vm_state [RSTORE, REG1, REG2, HALT, 0, 0, 0, 0] 8 [7, 4, 0, 0] 0 8))) + 1)"
    "memory (vm_state [RSTORE, REG1, REG2, HALT, 7, 0, 0, 0] 8 [7, 4, 0, 0] 0 8)
        ! nat (sint (program_counter (cpu
          (vm_state [RSTORE, REG1, REG2, HALT, 0, 0, 0, 0] 8 [7, 4, 0, 0] 0 8))) + 2)
        = memory (vm_state [RSTORE, REG1, REG2, HALT, 0, 0, 0, 0] 8 [7, 4, 0, 0] 0 8)
          ! nat (sint (program_counter (cpu
          (vm_state [RSTORE, REG1, REG2, HALT, 0, 0, 0, 0] 8 [7, 4, 0, 0] 0 8))) + 2)"
    by (simp_all add: vm_state_def)
  from rstore_repeats_unless_overwritten [OF h] h k show ?thesis
    by (simp only: simp_thms)
qed

text \<open>
  The store leaves the instruction as it was whenever the four bytes it writes lie beside
  the three bytes of the instruction.
\<close>

lemma rstore_runs_forever:
  assumes "opcode_map vm = initial_opcode_map"
    and "0 \<le> sint (program_counter (cpu vm))"
    and "sint (program_counter (cpu vm)) + 3 \<le> sint (memory_size vm)"
    and "sint (memory_size vm) \<le> int (length (memory vm))"
    and "memory vm ! nat (sint (program_counter (cpu vm))) = RSTORE"
    and "IsValidRegisterIndex (memory vm ! nat (sint (program_counter (cpu vm)) + 1))"
    and "IsValidRegisterIndex (memory vm ! nat (sint (program_counter (cpu vm)) + 2))"
    and "address = registers (cpu vm) ! unat (memory vm ! nat (sint (program_counter (cpu vm)) + 2))"
    and "0 \<le> sint address" and "sint address + 3 < sint (memory_size vm)"
    and "sint address + 3 < sint (program_counter (cpu vm)) \<or>
         sint (program_counter (cpu vm)) + 2 < sint address"
  shows "RunVM vm = None"
proof -
  define source where
    "source = registers (cpu vm) ! unat (memory vm ! nat (sint (program_counter (cpu vm)) + 1))"
  obtain vm' where w: "WriteWord vm address source = Some vm'"
    using assms(9,10) sint32_bounds(2) [of "memory_size vm"] assms(4)
    by (simp add: WriteWord_def Let_def)
  note d = WriteWord_SomeD [OF w]
  have e: "ExecuteRstore vm = Return False vm'"
    using assms(1,2,3) _ assms(6,7) w unfolding assms(8) source_def
    by (rule ExecuteRstore_success) (use assms(3,4) in simp)
  have same: "memory vm' ! nat (sint (program_counter (cpu vm)) + k)
      = memory vm ! nat (sint (program_counter (cpu vm)) + k)" if "0 \<le> k" "k \<le> 2" for k
    using that assms(2,9,11) by (intro d(9)) linarith
  show ?thesis
    using e assms(1,2) _ assms(5) _ same [of 1] same [of 2]
    by (rule rstore_repeats(3)) (use assms(3) same [of 0] in simp_all)
qed

lemma rstore_runs_forever_example:
  "RunVM (vm_state [RSTORE, REG1, REG2, HALT, 0, 0, 0, 0] 8 [7, 4, 0, 0] 0 8) = None"
  by (rule rstore_runs_forever [where address = 4])
     (simp_all add: vm_state_def IsValidRegisterIndex_def register_defs)

text \<open>
  When the store overwrites the instruction itself, the next pass fetches what was
  stored. The program \<^verbatim>\<open>CONST REG2, 12; CONST REG1, 0x40; RSTORE REG1, REG2\<close> reaches
  its \<^verbatim>\<open>RSTORE\<close>, at address 12, with 12 in the address register and \<^verbatim>\<open>0x40\<close>, the
  opcode of \<^verbatim>\<open>HALT\<close>, in the source register. The \<^verbatim>\<open>RSTORE\<close> executes and leaves the
  program counter at 12, where the loop now finds \<^verbatim>\<open>HALT\<close>: the instruction is executed
  once, and the run ends.
\<close>

theorem rstore_over_itself_halts:
  "ExecuteRstore
     (vm_state [CONST_op, REG2, 12, 0, 0, 0, CONST_op, REG1, 64, 0, 0, 0, RSTORE, REG1, REG2, 0,
                0, 0, 0, 0, 0, 0, 0, 0, 0, 0, 0, 0, 0, 0, 0, 0] 16 [64, 12, 0, 0] 12 32)
     = Return False
         (vm_state [CONST_op, REG2, 12, 0, 0, 0, CONST_op, REG1, 64, 0, 0, 0, HALT, 0, 0, 0,
                    0, 0, 0, 0, 0, 0, 0, 0, 0, 0, 0, 0, 0, 0, 0, 0] 16 [64, 12, 0, 0] 12 32) \<and>
   program_counter (cpu
     (vm_state [CONST_op, REG2, 12, 0, 0, 0, CONST_op, REG1, 64, 0, 0, 0, HALT, 0, 0, 0,
                0, 0, 0, 0, 0, 0, 0, 0, 0, 0, 0, 0, 0, 0, 0, 0] 16 [64, 12, 0, 0] 12 32))
     = program_counter (cpu
         (vm_state [CONST_op, REG2, 12, 0, 0, 0, CONST_op, REG1, 64, 0, 0, 0, RSTORE, REG1, REG2, 0,
                    0, 0, 0, 0, 0, 0, 0, 0, 0, 0, 0, 0, 0, 0, 0, 0] 16 [64, 12, 0, 0] 12 32)) \<and>
   RunVM_body
     (vm_state [CONST_op, REG2, 12, 0, 0, 0, CONST_op, REG1, 64, 0, 0, 0, HALT, 0, 0, 0,
                0, 0, 0, 0, 0, 0, 0, 0, 0, 0, 0, 0, 0, 0, 0, 0] 16 [64, 12, 0, 0] 12 32)
     = ExecuteHalt
         (vm_state [CONST_op, REG2, 12, 0, 0, 0, CONST_op, REG1, 64, 0, 0, 0, HALT, 0, 0, 0,
                    0, 0, 0, 0, 0, 0, 0, 0, 0, 0, 0, 0, 0, 0, 0, 0] 16 [64, 12, 0, 0] 12 32) \<and>
   RunVM
     (vm_state [CONST_op, REG2, 12, 0, 0, 0, CONST_op, REG1, 64, 0, 0, 0, RSTORE, REG1, REG2, 0,
                0, 0, 0, 0, 0, 0, 0, 0, 0, 0, 0, 0, 0, 0, 0, 0] 16 [64, 12, 0, 0] 12 32)
     = Some (Return ()
         (vm_state [CONST_op, REG2, 12, 0, 0, 0, CONST_op, REG1, 64, 0, 0, 0, HALT, 0, 0, 0,
                    0, 0, 0, 0, 0, 0, 0, 0, 0, 0, 0, 0, 0, 0, 0, 0] 16 [64, 12, 0, 0] 12 32))"
  by (simp add: RunVM.simps RunVM_body_def instructions_execute_def ExecuteRstore_def
        ExecuteHalt_def run_defs)

text \<open>
  The same from the program file, as \<^verbatim>\<open>main\<close> loads and runs it: the run returns, with
  \<^verbatim>\<open>HALT\<close> where the \<^verbatim>\<open>RSTORE\<close> was.
\<close>

lemma main_state_rstore_over_itself:
  "main_state
     [CONST_op, REG2, 12, 0, 0, 0, CONST_op, REG1, 64, 0, 0, 0, RSTORE, REG1, REG2]
   = Some (vm_state
       [CONST_op, REG2, 12, 0, 0, 0, CONST_op, REG1, 64, 0, 0, 0, RSTORE, REG1, REG2, 0,
        0, 0, 0, 0, 0, 0, 0, 0, 0, 0, 0, 0, 0, 0, 0, 0] 16 [0, 0, 0, 0] 0 32)"
proof -
  have r: "replicate 17 (0 :: uint8_t) = [0, 0, 0, 0, 0, 0, 0, 0, 0, 0, 0, 0, 0, 0, 0, 0, 0]"
    "replicate 4 (0 :: int32_t) = [0, 0, 0, 0]"
    by (simp_all add: eval_nat_numeral)
  show ?thesis
    by (simp add: main_state_def InitializeVM_def round_to_word_def
          size_t_of_def vm_state_def N_REGISTERS_def Let_def r)
qed

lemma RunVM_rstore_over_itself_file:
  "RunVM (vm_state
       [CONST_op, REG2, 12, 0, 0, 0, CONST_op, REG1, 64, 0, 0, 0, RSTORE, REG1, REG2, 0,
        0, 0, 0, 0, 0, 0, 0, 0, 0, 0, 0, 0, 0, 0, 0, 0] 16 [0, 0, 0, 0] 0 32)
   = Some (Return () (vm_state
       [CONST_op, REG2, 12, 0, 0, 0, CONST_op, REG1, 64, 0, 0, 0, HALT, 0, 0, 0,
        0, 0, 0, 0, 0, 0, 0, 0, 0, 0, 0, 0, 0, 0, 0, 0] 16 [64, 12, 0, 0] 12 32))"
  by (simp add: RunVM.simps RunVM_body_def instructions_execute_def ExecuteRstore_def
        ExecuteHalt_def ExecuteConst_def run_defs)

subsection \<open>InitializeVM\<close>

lemma round_to_word_eq:
  assumes "0 \<le> sint x" "sint x < 2 ^ 31 - 4"
  shows "sint (round_to_word x) = sint x + 4 - sint x mod 4"
proof -
  have r: "0 \<le> sint x mod 4" "sint x mod 4 < 4"
    by simp_all
  have a: "(4 - sint x mod 4) mod 2 ^ 64 = 4 - sint x mod 4"
    using r by (intro mod_pos_pos_trivial) simp_all
  have b: "(sint x + (4 - sint x mod 4)) mod 2 ^ 64 = sint x + (4 - sint x mod 4)"
    using r assms by (intro mod_pos_pos_trivial) simp_all
  have s: "size_t_of x = sint x"
    using assms(1) by (simp add: size_t_of_eq)
  have "round_to_word x = word_of_int (sint x + (4 - sint x mod 4))"
    by (simp only: round_to_word_def s a b)
  moreover have "sint (word_of_int (sint x + (4 - sint x mod 4)) :: int32_t)
      = sint x + (4 - sint x mod 4)"
    using r assms by (intro sint_word_of_int32) simp_all
  ultimately show ?thesis by simp
qed

text \<open>
  C7, as the code has it. For \<open>memory_size\<close> and \<open>stack_limit\<close> from 0 to
  \<open>2 ^ 31 - 5\<close>, \<open>InitializeVM\<close> stores \<open>x + 4 - x mod 4\<close>: the multiple of 4
  that is greater than \<open>x\<close> and at most \<open>x + 4\<close>, that is the least multiple of 4
  strictly greater than \<open>x\<close>.
\<close>

theorem initialize_rounds_past:
  assumes "0 \<le> sint memory_size0" and "sint memory_size0 < 2 ^ 31 - 4"
    and "0 \<le> sint stack_limit0" and "sint stack_limit0 < 2 ^ 31 - 4"
  shows "sint (memory_size (InitializeVM vm memory_size0 stack_limit0))
           = sint memory_size0 + 4 - sint memory_size0 mod 4 \<and>
         sint (stack_limit (InitializeVM vm memory_size0 stack_limit0))
           = sint stack_limit0 + 4 - sint stack_limit0 mod 4 \<and>
         sint (memory_size (InitializeVM vm memory_size0 stack_limit0)) mod 4 = 0 \<and>
         sint memory_size0 < sint (memory_size (InitializeVM vm memory_size0 stack_limit0)) \<and>
         sint (memory_size (InitializeVM vm memory_size0 stack_limit0)) \<le> sint memory_size0 + 4 \<and>
         sint (stack_limit (InitializeVM vm memory_size0 stack_limit0)) mod 4 = 0 \<and>
         sint stack_limit0 < sint (stack_limit (InitializeVM vm memory_size0 stack_limit0)) \<and>
         sint (stack_limit (InitializeVM vm memory_size0 stack_limit0)) \<le> sint stack_limit0 + 4"
proof -
  have m: "sint (memory_size (InitializeVM vm memory_size0 stack_limit0))
           = sint memory_size0 + 4 - sint memory_size0 mod 4"
    using round_to_word_eq [OF assms(1,2)] by (simp add: InitializeVM_def Let_def)
  have l: "sint (stack_limit (InitializeVM vm memory_size0 stack_limit0))
           = sint stack_limit0 + 4 - sint stack_limit0 mod 4"
    using round_to_word_eq [OF assms(3,4)] by (simp add: InitializeVM_def Let_def)
  have "(sint memory_size0 + 4 - sint memory_size0 mod 4) mod 4 = 0"
    "(sint stack_limit0 + 4 - sint stack_limit0 mod 4) mod 4 = 0"
    by presburger+
  moreover have "0 \<le> sint memory_size0 mod 4" "sint memory_size0 mod 4 < 4"
    "0 \<le> sint stack_limit0 mod 4" "sint stack_limit0 mod 4 < 4"
    by simp_all
  ultimately show ?thesis
    unfolding m l by simp
qed

theorem initialize_rounds_past_witness:
  "0 \<le> sint (9 :: int32_t) \<and> sint (9 :: int32_t) < 2 ^ 31 - 4 \<and>
   0 \<le> sint (5 :: int32_t) \<and> sint (5 :: int32_t) < 2 ^ 31 - 4 \<and>
   sint (memory_size (InitializeVM (vm_state [] 0 [] 0 0) 9 5)) = 12 \<and>
   sint (stack_limit (InitializeVM (vm_state [] 0 [] 0 0) 9 5)) = 8"
proof -
  have h: "0 \<le> sint (9 :: int32_t)" "sint (9 :: int32_t) < 2 ^ 31 - 4"
   "0 \<le> sint (5 :: int32_t)" "sint (5 :: int32_t) < 2 ^ 31 - 4"
    by simp_all
  from initialize_rounds_past [OF h, of "vm_state [] 0 [] 0 0"] show ?thesis
    by simp
qed

text \<open>
  A size that is already a multiple of 4 is not kept: 8 becomes 12. And the sum wraps
  around for a size above \<open>2 ^ 31 - 5\<close>.
\<close>

theorem initialize_adds_four_to_a_multiple:
  "0 \<le> sint (8 :: int32_t) \<and> sint (8 :: int32_t) mod 4 = 0 \<and>
   memory_size (InitializeVM (vm_state [] 0 [] 0 0) 8 8) = 12 \<and>
   stack_limit (InitializeVM (vm_state [] 0 [] 0 0) 8 8) = 12 \<and>
   0 \<le> sint (2147483647 :: int32_t) \<and>
   sint (memory_size (InitializeVM (vm_state [] 0 [] 0 0) 2147483647 8)) = - 2147483648"
  by (simp add: InitializeVM_def round_to_word_def size_t_of_def)

subsection \<open>The length check comes first\<close>

text \<open>
  Every rule of the table except that of \<^verbatim>\<open>HALT\<close> begins with the length check. In a
  state with the opcode map of \<open>InitializeVM\<close> and a non-negative \<open>memory_size\<close>,
  when the program counter plus the length of the instruction exceeds \<open>memory_size\<close>,
  the rule returns the halt signal and the state it leaves is the state it was given with
  \<open>BAD_ACCESS\<close> set.
\<close>

lemma length_check_of_rule:
  assumes "opcode_map vm = initial_opcode_map"
    and "0 \<le> sint (memory_size vm)"
    and "opcode_map vm opcode \<noteq> 0"
    and "opcode \<noteq> HALT"
    and "sint (memory_size vm)
           < sint (program_counter (cpu vm)) + int (snd (instructions ! opcode_map vm opcode))"
  shows "\<exists>execute. instructions_execute ! opcode_map vm opcode = Some execute \<and>
           execute vm = Return True (set_status (\<lambda>s. s\<lparr>BAD_ACCESS := True\<rparr>) vm)"
proof -
  have len: "GetInstructionLength vm opcode = Some (snd (instructions ! opcode_map vm opcode))"
    "snd (instructions ! opcode_map vm opcode) < 2 ^ 31"
    using initial_opcode_map_cases [of opcode] assms(1,3)
    by (auto simp add: GetInstructionLength_initial initial_opcode_map_values instructions_def)
  have nofit: "InstructionFitsInMemory vm opcode = Some False"
    using len(1) assms(2,5) len(2) by (rule not_fits)
  show ?thesis
    using initial_opcode_map_cases [of opcode] assms(1,3,4) nofit
    by (auto simp add: initial_opcode_map_values instructions_execute_def rule_does_not_fit)
qed

text \<open>
  The rule of \<^verbatim>\<open>HALT\<close> is \<^verbatim>\<open>return true\<close>, with no length check. The loop of
  \<open>RunVM\<close> executes a rule only in a state where
  \<open>0 \<le> program_counter < memory_size\<close>, and there the one byte of \<^verbatim>\<open>HALT\<close> never runs
  past \<open>memory_size\<close>.
\<close>

lemma halt_fits_where_dispatched:
  assumes "opcode_map vm = initial_opcode_map"
    and "sint (program_counter (cpu vm)) < sint (memory_size vm)"
  shows "sint (program_counter (cpu vm)) + int (snd (instructions ! opcode_map vm HALT))
           \<le> sint (memory_size vm)"
  using assms by (simp add: initial_opcode_map_values instructions_def)



text \<open>
  So a pass of the loop that fetches the opcode of an instruction running past
  \<open>memory_size\<close> ends the run with \<open>BAD_ACCESS\<close> set and nothing else changed.
\<close>

lemma RunVM_body_length_check:
  assumes "opcode_map vm = initial_opcode_map"
    and "0 \<le> sint (program_counter (cpu vm))"
    and "sint (program_counter (cpu vm)) < sint (memory_size vm)"
    and "ReadByte vm (sint (program_counter (cpu vm))) = Some opcode"
    and "opcode_map vm opcode \<noteq> 0"
    and "sint (memory_size vm)
           < sint (program_counter (cpu vm)) + int (snd (instructions ! opcode_map vm opcode))"
  shows "RunVM_body vm = Return True (set_status (\<lambda>s. s\<lparr>BAD_ACCESS := True\<rparr>) vm)"
proof -
  have m: "0 \<le> sint (memory_size vm)"
    using assms(2,3) by simp
  have h: "opcode \<noteq> HALT"
    using halt_fits_where_dispatched [OF assms(1,3)] assms(6) by auto
  obtain execute where e: "instructions_execute ! opcode_map vm opcode = Some execute"
      "execute vm = Return True (set_status (\<lambda>s. s\<lparr>BAD_ACCESS := True\<rparr>) vm)"
    using length_check_of_rule [OF assms(1) m assms(5) h assms(6)] by blast
  have i: "opcode_map vm opcode < length instructions_execute"
    using initial_opcode_map_cases [of opcode] assms(1,5)
    by (auto simp add: initial_opcode_map_values instructions_execute_def)
  show ?thesis
    using assms(2,3,4,5) e i
    by (simp add: RunVM_body_def GetProgramCounter_def defined_def Let_def)
qed

lemma RunVM_length_check:
  assumes "opcode_map vm = initial_opcode_map"
    and "0 \<le> sint (program_counter (cpu vm))"
    and "sint (program_counter (cpu vm)) < sint (memory_size vm)"
    and "ReadByte vm (sint (program_counter (cpu vm))) = Some opcode"
    and "opcode_map vm opcode \<noteq> 0"
    and "sint (memory_size vm)
           < sint (program_counter (cpu vm)) + int (snd (instructions ! opcode_map vm opcode))"
  shows "RunVM vm = Some (Return () (set_status (\<lambda>s. s\<lparr>BAD_ACCESS := True\<rparr>) vm))"
  using RunVM_body_length_check [OF assms] by (subst RunVM.simps) simp

subsection \<open>MOD\<close>

text \<open>
  C9, as the code has it. In a state with the opcode map of \<open>InitializeVM\<close> and four
  registers, with the instruction inside the memory and valid register indices \<open>s\<close>
  and \<open>t\<close> as operands, \<^verbatim>\<open>MOD\<close> stores \<^verbatim>\<open>source % target\<close> in the target register
  (the dividend is the source register, the divisor the value the target register had)
  and advances the program counter by 3, provided that the divisor is not zero and that
  the operands are not \<open>- 2 ^ 31\<close> and \<open>- 1\<close>, for which C leaves \<^verbatim>\<open>%\<close> undefined too.
\<close>

theorem mod_divides_source_by_target:
  assumes "opcode_map vm = initial_opcode_map"
    and "length (registers (cpu vm)) = N_REGISTERS"
    and "0 \<le> sint (program_counter (cpu vm))"
    and "sint (program_counter (cpu vm)) + 3 \<le> sint (memory_size vm)"
    and "sint (memory_size vm) \<le> int (length (memory vm))"
    and "s = memory vm ! nat (sint (program_counter (cpu vm)) + 1)"
    and "t = memory vm ! nat (sint (program_counter (cpu vm)) + 2)"
    and "IsValidRegisterIndex s" and "IsValidRegisterIndex t"
    and "source = registers (cpu vm) ! unat s"
    and "target = registers (cpu vm) ! unat t"
    and "sint target \<noteq> 0"
    and "\<not> (sint source = - (2 ^ 31) \<and> sint target = - 1)"
  shows "\<exists>vm'. ExecuteMod vm = Return False vm' \<and>
           vm' = vm\<lparr>cpu := (cpu vm)
                   \<lparr>registers := (registers (cpu vm))
                                   [unat t := word_of_int (c_mod (sint source) (sint target))],
                    program_counter := program_counter (cpu vm) + 3\<rparr>\<rparr> \<and>
           sint (registers (cpu vm') ! unat t) = c_mod (sint source) (sint target) \<and>
           sint (program_counter (cpu vm')) = sint (program_counter (cpu vm)) + 3"
proof -
  have len: "GetInstructionLength vm MOD = Some 3"
    using assms(1) by (rule GetInstructionLength_initial)
  have fits: "InstructionFitsInMemory vm MOD = Some True"
    using len _ assms(3) by (rule fits_intro) (use assms(4) in simp_all)
  have m: "sint (memory_size vm) < 2 ^ 31"
    by (rule sint32_bounds)
  have s: "ReadByteAtPC vm 1 = Some s"
    unfolding assms(6) using assms(3,4,5) m by (intro ReadByteAtPC_eq) simp_all
  have t: "ReadByteAtPC vm 2 = Some t"
    unfolding assms(7) using assms(3,4,5) m by (intro ReadByteAtPC_eq) simp_all
  have i: "unat s < N_REGISTERS" "unat t < N_REGISTERS"
    using assms(8,9) by (simp_all add: IsValidRegisterIndex_iff)
  have gs: "get_register vm s = Some source" and gt: "get_register vm t = Some target"
    using i by (simp_all add: get_register_def assms(10,11))
  note md = int32_mod_eq [OF assms(12,13)]
  have pc: "sint (program_counter (cpu vm) + word_of_int 3) = sint (program_counter (cpu vm)) + 3"
    using assms(3,4) m by (intro sint_add_int32) simp_all
  have e: "ExecuteMod vm = Return False
      (vm\<lparr>cpu := (cpu vm)
                   \<lparr>registers := (registers (cpu vm))
                                   [unat t := word_of_int (c_mod (sint source) (sint target))],
                    program_counter := program_counter (cpu vm) + 3\<rparr>\<rparr>)"
    using assms(8,9) i
    by (simp add: ExecuteMod_def defined_def fits s t gs gt md(1) set_register_def
          advance_program_counter_def set_program_counter_def GetInstructionLength_def
          assms(1) initial_opcode_map_values instructions_def)
  show ?thesis
    using e md(2) pc i(2) assms(2) by simp
qed

theorem mod_divides_source_by_target_witness:
  "opcode_map (vm_state [MOD, REG1, REG2, HALT] 4 [- 7, 2, 0, 0] 0 4) = initial_opcode_map \<and>
   length (registers (cpu (vm_state [MOD, REG1, REG2, HALT] 4 [- 7, 2, 0, 0] 0 4))) = N_REGISTERS \<and>
   IsValidRegisterIndex REG1 \<and> IsValidRegisterIndex REG2 \<and>
   sint (- 7 :: int32_t) = - 7 \<and> sint (2 :: int32_t) = 2 \<and> c_mod (- 7) 2 = - 1 \<and>
   ExecuteMod (vm_state [MOD, REG1, REG2, HALT] 4 [- 7, 2, 0, 0] 0 4)
     = Return False (vm_state [MOD, REG1, REG2, HALT] 4 [- 7, - 1, 0, 0] 3 4)"
proof -
  let ?vm = "vm_state [MOD, REG1, REG2, HALT] 4 [- 7, 2, 0, 0] 0 4"
  have h: "opcode_map ?vm = initial_opcode_map"
    "length (registers (cpu ?vm)) = N_REGISTERS"
    "0 \<le> sint (program_counter (cpu ?vm))"
    "sint (program_counter (cpu ?vm)) + 3 \<le> sint (memory_size ?vm)"
    "sint (memory_size ?vm) \<le> int (length (memory ?vm))"
    "REG1 = memory ?vm ! nat (sint (program_counter (cpu ?vm)) + 1)"
    "REG2 = memory ?vm ! nat (sint (program_counter (cpu ?vm)) + 2)"
    by (simp_all add: vm_state_def N_REGISTERS_def)
  have i: "IsValidRegisterIndex REG1" "IsValidRegisterIndex REG2"
    by (simp_all add: IsValidRegisterIndex_def)
  have r: "(- 7 :: int32_t) = registers (cpu ?vm) ! unat REG1"
    "(2 :: int32_t) = registers (cpu ?vm) ! unat REG2"
    by (simp_all add: vm_state_def register_defs)
  have v: "sint (- 7 :: int32_t) = - 7" "sint (2 :: int32_t) = 2"
    by simp_all
  have n: "sint (2 :: int32_t) \<noteq> 0"
    "\<not> (sint (- 7 :: int32_t) = - (2 ^ 31) \<and> sint (2 :: int32_t) = - 1)"
    by simp_all
  have c: "c_mod (- 7) 2 = - 1"
    by (simp add: c_mod_def c_div_def)
  have u: "unat REG2 = 1"
    by (simp add: register_defs)
  from mod_divides_source_by_target [OF h i r n]
  have "ExecuteMod ?vm = Return False (vm_state [MOD, REG1, REG2, HALT] 4 [- 7, - 1, 0, 0] 3 4)"
    by (simp add: v c u vm_state_def)
  with h(1,2) i v c show ?thesis
    by (simp only: simp_thms)
qed

text \<open>
  With \<open>- 2 ^ 31\<close> in the source register and \<open>- 1\<close> in the target register the
  divisor is not zero, and the instruction is undefined.
\<close>

theorem mod_of_minimum_by_minus_one_is_undefined:
  "ReadByteAtPC (vm_state [MOD, REG1, REG2, HALT] 4 [- 2147483648, - 1, 0, 0] 0 4) 1 = Some REG1 \<and>
   ReadByteAtPC (vm_state [MOD, REG1, REG2, HALT] 4 [- 2147483648, - 1, 0, 0] 0 4) 2 = Some REG2 \<and>
   IsValidRegisterIndex REG1 \<and> IsValidRegisterIndex REG2 \<and>
   get_register (vm_state [MOD, REG1, REG2, HALT] 4 [- 2147483648, - 1, 0, 0] 0 4) REG1
     = Some (- 2147483648) \<and>
   get_register (vm_state [MOD, REG1, REG2, HALT] 4 [- 2147483648, - 1, 0, 0] 0 4) REG2
     = Some (- 1) \<and>
   sint (- 1 :: int32_t) \<noteq> 0 \<and>
   ExecuteMod (vm_state [MOD, REG1, REG2, HALT] 4 [- 2147483648, - 1, 0, 0] 0 4)
     = Undefined (vm_state [MOD, REG1, REG2, HALT] 4 [- 2147483648, - 1, 0, 0] 0 4)"
  by (simp add: ExecuteMod_def int32_mod_def c_div_def c_mod_def run_defs)


subsection \<open>CALL and RET\<close>

lemma ExecuteCall_success:
  assumes "opcode_map vm = initial_opcode_map"
    and "ExecuteCall vm = Return False vm1"
  shows "ReadWord vm1 (stack_pointer (cpu vm1)) = Some (program_counter (cpu vm) + 5)"
    and "InstructionFitsInMemory vm CALL = Some True"
    and "0 \<le> sint (program_counter (cpu vm)) + 1"
proof -
  have len: "GetInstructionLength vm CALL = Some 5"
    using assms(1) by (simp add: GetInstructionLength_def initial_opcode_map_def instructions_def opcode_defs)
  from assms(2) show fits: "InstructionFitsInMemory vm CALL = Some True"
    by (auto simp add: ExecuteCall_def defined_def split: option.splits if_splits)
  from assms(2) fits obtain available address where
    a: "GetAvailableStackSize vm = Some available" "\<not> sint available < 4"
       "ReadWordAtPC vm 1 = Some address"
       "and_then (PushVM vm (GetProgramCounter vm + 5))
          (\<lambda>_ vm1. Return False (set_program_counter address vm1)) = Return False vm1"
    by (auto simp add: ExecuteCall_def defined_def len split: option.splits if_splits)
  from a(3) obtain w where w: "int32_of_int (sint (program_counter (cpu vm)) + 1) = Some w"
      "ReadWord vm w = Some address"
    by (auto simp add: ReadWordAtPC_def split: option.splits)
  from w(2) have "0 \<le> sint w"
    by (auto simp add: ReadWord_def Let_def split: if_splits)
  with int32_of_int_SomeD(1) [OF w(1)] show "0 \<le> sint (program_counter (cpu vm)) + 1"
    by simp
  from a(4) obtain sp vm' where
    p: "int32_of_int (sint (stack_pointer (cpu vm)) - 4) = Some sp"
       "WriteWord (set_stack_pointer sp vm) sp (GetProgramCounter vm + 5) = Some vm'"
       "vm1 = set_program_counter address vm'"
    by (auto simp add: and_then_def PushVM_def split: option.splits result.splits)
  have "stack_pointer (cpu vm') = sp"
    using p(2) by (auto simp add: WriteWord_def Let_def set_stack_pointer_def split: if_splits)
  then have sp1: "stack_pointer (cpu vm1) = sp"
    by (simp add: p(3) set_program_counter_def)
  have "ReadWord vm1 sp = ReadWord vm' sp"
    by (rule ReadWord_cong) (simp add: p(3) set_program_counter_def)
  also have "\<dots> = Some (GetProgramCounter vm + 5)"
    using p(2) by (rule ReadWord_WriteWord)
  finally show "ReadWord vm1 (stack_pointer (cpu vm1)) = Some (program_counter (cpu vm) + 5)"
    by (simp add: sp1 GetProgramCounter_def)
qed

lemma ExecuteRet_success:
  assumes "ExecuteRet vm = Return False vm'"
  shows "ReadWord vm (stack_pointer (cpu vm)) = Some (program_counter (cpu vm'))"
  using assms
  by (auto simp add: ExecuteRet_def defined_def and_then_def PopVM_def
        set_program_counter_def set_stack_pointer_def
        split: option.splits if_splits result.splits)


text \<open>
  C10. When \<^verbatim>\<open>CALL\<close> executes at \<open>call_site\<close> and \<^verbatim>\<open>RET\<close> then executes in a state
  with the same stack pointer and the same word on top of the stack, the word that
  \<^verbatim>\<open>CALL\<close> pushed is \<open>call_site + 5\<close> and the program counter after \<^verbatim>\<open>RET\<close> is
  \<open>call_site + 5\<close>; the sum does not wrap around when \<open>memory_size\<close> is not negative.
\<close>

theorem call_then_ret:
  assumes "opcode_map vm = initial_opcode_map"
    and "ExecuteCall vm = Return False vm1"
    and "stack_pointer (cpu vm2) = stack_pointer (cpu vm1)"
    and "ReadWord vm2 (stack_pointer (cpu vm1)) = ReadWord vm1 (stack_pointer (cpu vm1))"
    and "ExecuteRet vm2 = Return False vm3"
  shows "ReadWord vm1 (stack_pointer (cpu vm1)) = Some (program_counter (cpu vm) + 5) \<and>
         program_counter (cpu vm3) = program_counter (cpu vm) + 5 \<and>
         (0 \<le> sint (memory_size vm) \<longrightarrow>
            sint (program_counter (cpu vm3)) = sint (program_counter (cpu vm)) + 5)"
proof -
  note c = ExecuteCall_success [OF assms(1,2)]
  have len: "GetInstructionLength vm CALL = Some 5"
    using assms(1) by (rule GetInstructionLength_initial)
  have "ReadWord vm2 (stack_pointer (cpu vm2)) = Some (program_counter (cpu vm3))"
    using assms(5) by (rule ExecuteRet_success)
  then have pc3: "program_counter (cpu vm3) = program_counter (cpu vm) + 5"
    using c(1) assms(3,4) by simp
  have "sint (program_counter (cpu vm3)) = sint (program_counter (cpu vm)) + 5"
    if m: "0 \<le> sint (memory_size vm)"
  proof -
    have "sint (program_counter (cpu vm)) + 5 < 2 ^ 31"
    proof (cases "0 \<le> sint (program_counter (cpu vm))")
      case True
      have "sint (program_counter (cpu vm)) + int 5 \<le> sint (memory_size vm)"
        using c(2) len _ m True by (rule fits_imp) simp
      then show ?thesis using sint32_bounds(2) [of "memory_size vm"] by simp
    next
      case False
      then show ?thesis by simp
    qed
    then have "sint (program_counter (cpu vm) + word_of_int 5)
        = sint (program_counter (cpu vm)) + 5"
      using c(3) by (intro sint_add_int32) simp_all
    then show ?thesis using pc3 by simp
  qed
  then show ?thesis using c(1) pc3 by simp
qed

theorem call_then_ret_witness:
  "opcode_map call_ret_start = initial_opcode_map \<and>
   ExecuteCall call_ret_start = Return False call_ret_called \<and>
   ExecuteRet call_ret_called = Return False call_ret_returned \<and>
   0 \<le> sint (memory_size call_ret_start) \<and>
   ReadWord call_ret_called (stack_pointer (cpu call_ret_called))
     = Some (program_counter (cpu call_ret_start) + 5) \<and>
   program_counter (cpu call_ret_returned) = program_counter (cpu call_ret_start) + 5 \<and>
   sint (program_counter (cpu call_ret_returned)) = sint (program_counter (cpu call_ret_start)) + 5 \<and>
   program_counter (cpu call_ret_returned) = 5"
proof -
  have h: "opcode_map call_ret_start = initial_opcode_map"
    "ExecuteCall call_ret_start = Return False call_ret_called"
    by (simp_all add: ExecuteCall_def example_defs run_defs)
  have r: "ExecuteRet call_ret_called = Return False call_ret_returned"
    by (simp add: ExecuteRet_def example_defs run_defs)
  have m: "0 \<le> sint (memory_size call_ret_start)"
    by (simp add: example_defs vm_state_def)
  have p: "program_counter (cpu call_ret_returned) = 5"
    by (simp add: example_defs vm_state_def)
  from call_then_ret [OF h refl refl r] h r m p show ?thesis
    by (simp only: simp_thms)
qed

text \<open>The run of that program goes on to the \<^verbatim>\<open>HALT\<close> at address 5 and ends there.\<close>

lemma RunVM_call_ret_example:
  "RunVM call_ret_start = Some (Return () call_ret_returned)"
  by (simp add: RunVM.simps RunVM_body_def instructions_execute_def ExecuteCall_def
        ExecuteRet_def ExecuteHalt_def example_defs run_defs)

end
